theory Spec2Isabelle
  imports Complex_Main "HOL-Library.Sublist" "HOL-Library.Code_Target_Nat"
begin

section \<open>JavaScript values used by the services\<close>

text \<open>
  Numbers are doubles in the source. A number is modelled as a rational, \<open>NaN\<close> or one
  of the two infinities. Comparisons, \<open>Math.min\<close>, \<open>Math.max\<close> and \<open>Math.round\<close> are
  exact on doubles and are modelled as they are. A sum, a quotient and a product are
  rounded to the nearest double in the source and are exact here. For whole numbers the
  two agree where the statements below need it: sums of whole scores are exact in a
  double, comparing the double quotient of two whole numbers with 40 or with 70 gives the
  same answer as comparing the rational, two such quotients compare as the rationals do,
  and \<open>Math.round\<close> of the double average of whole scores equals the rounded rational.
  For scores with a fractional part the source's rounded sum can differ from the exact
  sum in the last places; what the theorems of the claims say about such scores holds
  for either sum, and what they say about the value of a sum is said for whole scores
  only. \<open>Math.round\<close> of a
  match score equals the rounded rational for a job with fewer than 40 required skills;
  from 40 skills on the double product can lie just below a half where the rational is
  the half (23 of 40 gives 57.49999999999999), and the source then rounds down where the
  rational rounds up. The division by zero, where the double is no rational at all, is
  written out.
\<close>

datatype jsnum = Num rat | NaN | PosInf | NegInf

text \<open>\<open>x + y\<close>\<close>

fun js_add :: "jsnum \<Rightarrow> jsnum \<Rightarrow> jsnum" where
  "js_add (Num a) (Num b) = Num (a + b)"
| "js_add NaN y = NaN"
| "js_add x NaN = NaN"
| "js_add PosInf NegInf = NaN"
| "js_add NegInf PosInf = NaN"
| "js_add PosInf y = PosInf"
| "js_add x PosInf = PosInf"
| "js_add NegInf y = NegInf"
| "js_add x NegInf = NegInf"

text \<open>\<open>x / n\<close> for the length \<open>n\<close> of an array.\<close>

fun js_div :: "jsnum \<Rightarrow> nat \<Rightarrow> jsnum" where
  "js_div (Num a) n =
     (if n \<noteq> 0 then Num (a / of_nat n)
      else if a = 0 then NaN
      else if 0 < a then PosInf else NegInf)"
| "js_div NaN n = NaN"
| "js_div PosInf n = PosInf"
| "js_div NegInf n = NegInf"

text \<open>\<open>x >= t\<close>\<close>

fun js_ge :: "jsnum \<Rightarrow> rat \<Rightarrow> bool" where
  "js_ge (Num x) t = (t \<le> x)"
| "js_ge NaN t = False"
| "js_ge PosInf t = True"
| "js_ge NegInf t = False"

text \<open>\<open>Math.min(c, x)\<close> and \<open>Math.max(c, x)\<close> for a constant \<open>c\<close>.\<close>

fun Math_min :: "rat \<Rightarrow> jsnum \<Rightarrow> jsnum" where
  "Math_min c (Num x) = Num (min c x)"
| "Math_min c NaN = NaN"
| "Math_min c PosInf = Num c"
| "Math_min c NegInf = NegInf"

fun Math_max :: "rat \<Rightarrow> jsnum \<Rightarrow> jsnum" where
  "Math_max c (Num x) = Num (max c x)"
| "Math_max c NaN = NaN"
| "Math_max c PosInf = PosInf"
| "Math_max c NegInf = Num c"

definition round_half_up :: "rat \<Rightarrow> int" where
  "round_half_up x = \<lfloor>x + 1 / 2\<rfloor>"

fun Math_round :: "jsnum \<Rightarrow> jsnum" where
  "Math_round (Num x) = Num (of_int (round_half_up x))"
| "Math_round NaN = NaN"
| "Math_round PosInf = PosInf"
| "Math_round NegInf = NegInf"

datatype error = Error string

subsection \<open>Strings\<close>

text \<open>
  A string that the source folds, searches, splits or trims is the list of its UTF-16
  code units, so every JavaScript string is a value of the type. Text that the source
  only stores, hands on or appends to a message is kept as a HOL string.
\<close>

type_synonym jsstring = "nat list"

text \<open>
  \<open>toLowerCase\<close>. On a string whose code units all lie below 256 (ASCII and Latin-1)
  the conversion works unit by unit: the letters A to Z and the letters from U+00C0 to
  U+00DE, the multiplication sign U+00D7 excepted, move up by 32, and nothing else
  changes. For a string with a code unit from 256 on the conversion follows the tables
  of the Unicode Character Database, with rules that look at neighbouring characters;
  the tables are part of the runtime and are taken as the parameter \<open>unicode_lower\<close>.
\<close>

definition latin1_lower :: "nat \<Rightarrow> nat" where
  "latin1_lower u =
     (if (65 \<le> u \<and> u \<le> 90) \<or> (192 \<le> u \<and> u \<le> 222 \<and> u \<noteq> 215) then u + 32 else u)"

definition toLowerCase :: "(jsstring \<Rightarrow> jsstring) \<Rightarrow> jsstring \<Rightarrow> jsstring" where
  "toLowerCase unicode_lower s =
     (if list_all (\<lambda>u. u < 256) s then map latin1_lower s else unicode_lower s)"

text \<open>\<open>starts_at s t\<close>: the string \<open>t\<close> occurs in \<open>s\<close> at position 0.\<close>

fun starts_at :: "jsstring \<Rightarrow> jsstring \<Rightarrow> bool" where
  "starts_at s [] = True"
| "starts_at [] (d # t) = False"
| "starts_at (c # s) (d # t) = (c = d \<and> starts_at s t)"

text \<open>\<open>str_includes s t\<close> is \<open>s.includes(t)\<close>: \<open>t\<close> occurs in \<open>s\<close> at some position.\<close>

fun str_includes :: "jsstring \<Rightarrow> jsstring \<Rightarrow> bool" where
  "str_includes [] t = (t = [])"
| "str_includes (c # s) t = (starts_at (c # s) t \<or> str_includes s t)"

section \<open>answerEvaluationService.js\<close>

text \<open>
  The evaluation oracle is the call \<open>model.generateContent(prompt)\<close> followed by
  \<open>JSON.parse\<close> of the reply. The prompt is built from the four arguments of
  \<open>evaluateAnswer\<close>, so a request is the record of those four. The oracle is a parameter:
  given how many calls were made before and the request, it either fails with a message
  (the call was rejected, or the reply was not JSON) or yields the parsed object. The
  score of the parsed object is the number that \<open>Math.min\<close> makes of its \<open>score\<close> field:
  any number, whole or not, an infinity for a literal beyond the range of doubles, and
  \<open>NaN\<close> when the field is missing or is not a number. The subscores are kept the same
  way. The list of requests made so far is the state that is threaded through.
\<close>

record oracle_request =
  req_question :: string
  req_correctAnswer :: string
  req_userAnswer :: string
  req_keywords :: "string list"

record oracle_evaluation =
  score :: jsnum
  accuracy :: jsnum
  completeness :: jsnum
  clarity :: jsnum
  keyword_score :: jsnum
  verdict :: string
  feedback :: string
  strengths :: "string list"
  improvements :: "string list"

record answer_evaluation = oracle_evaluation +
  passed :: bool

type_synonym eval_oracle = "nat \<Rightarrow> oracle_request \<Rightarrow> string + oracle_evaluation"

definition evaluateAnswer ::
  "eval_oracle \<Rightarrow> oracle_request list \<Rightarrow> string \<Rightarrow> string \<Rightarrow> string \<Rightarrow> string list
     \<Rightarrow> oracle_request list \<times> (error + answer_evaluation)" where
  "evaluateAnswer orc calls question userAnswer correctAnswer keywords =
     (let req = \<lparr>req_question = question, req_correctAnswer = correctAnswer,
                 req_userAnswer = userAnswer, req_keywords = keywords\<rparr>
      in case orc (length calls) req of
           Inl msg \<Rightarrow> (calls @ [req], Inl (Error (''Failed to evaluate answer: '' @ msg)))
         | Inr evaluation \<Rightarrow>
             let s = Math_max 0 (Math_min 100 (score evaluation))
             in (calls @ [req],
                 Inr \<lparr>score = s, accuracy = accuracy evaluation,
                      completeness = completeness evaluation, clarity = clarity evaluation,
                      keyword_score = keyword_score evaluation, verdict = verdict evaluation,
                      feedback = feedback evaluation, strengths = strengths evaluation,
                      improvements = improvements evaluation, passed = js_ge s 70\<rparr>))"

record question =
  q_id :: nat
  q_skill :: string
  q_question :: string
  q_correct_answer :: string
  q_keywords :: "string list"

record individual_evaluation =
  question_id :: nat
  skill :: string
  question_text :: string
  user_answer :: string
  evaluation :: answer_evaluation

record eval_summary =
  passed_questions :: nat
  total_questions :: nat
  status :: string

record evaluation_result =
  is_verified :: bool
  average_score :: jsnum
  total_score :: jsnum
  passing_threshold :: int
  individual_evaluations :: "individual_evaluation list"
  summary :: eval_summary

text \<open>
  The \<open>for\<close> loop of \<open>evaluateAllAnswers\<close>. It runs over the pairs
  \<open>(questions[i], userAnswers[i])\<close>; the two arrays have the same length when the loop is
  reached. An error thrown by \<open>evaluateAnswer\<close> leaves the loop at once.
\<close>

fun evaluate_loop ::
  "eval_oracle \<Rightarrow> oracle_request list \<Rightarrow> (question \<times> string) list
     \<Rightarrow> individual_evaluation list \<Rightarrow> jsnum
     \<Rightarrow> oracle_request list \<times> (error + individual_evaluation list \<times> jsnum)" where
  "evaluate_loop orc calls [] evaluations totalScore = (calls, Inr (evaluations, totalScore))"
| "evaluate_loop orc calls ((q, answer) # rest) evaluations totalScore =
     (case evaluateAnswer orc calls (q_question q) answer (q_correct_answer q) (q_keywords q) of
        (calls', Inl e) \<Rightarrow> (calls', Inl e)
      | (calls', Inr ev) \<Rightarrow>
          evaluate_loop orc calls' rest
            (evaluations @
               [\<lparr>question_id = q_id q, skill = q_skill q, question_text = q_question q,
                 user_answer = answer, evaluation = ev\<rparr>])
            (js_add totalScore (score ev)))"

definition evaluateAllAnswers ::
  "eval_oracle \<Rightarrow> oracle_request list \<Rightarrow> question list \<Rightarrow> string list
     \<Rightarrow> oracle_request list \<times> (error + evaluation_result)" where
  "evaluateAllAnswers orc calls questions userAnswers =
     (if length questions \<noteq> length userAnswers
      then (calls, Inl (Error ''Number of questions must match number of answers''))
      else
        case evaluate_loop orc calls (zip questions userAnswers) [] (Num 0) of
          (calls', Inl e) \<Rightarrow> (calls', Inl e)
        | (calls', Inr (evaluations, totalScore)) \<Rightarrow>
            let averageScore = js_div totalScore (length questions);
                passingThreshold = 70
            in (calls',
                Inr \<lparr>is_verified = js_ge averageScore (of_int passingThreshold),
                     average_score = Math_round averageScore,
                     total_score = Math_round totalScore,
                     passing_threshold = passingThreshold,
                     individual_evaluations = evaluations,
                     summary =
                       \<lparr>passed_questions =
                          length (filter (\<lambda>e. passed (evaluation e)) evaluations),
                        total_questions = length evaluations,
                        status =
                          (if js_ge averageScore (of_int passingThreshold)
                           then ''VERIFIED'' else ''NOT_VERIFIED'')\<rparr>\<rparr>))"

section \<open>The route \<open>POST /api/answers/evaluate\<close>\<close>

text \<open>
  The handler that calls \<open>evaluateAllAnswers\<close> and keeps its result in
  \<open>evaluationCache\<close>, a map from session id to result. A field that the request body
  lacks is \<open>None\<close>; so is an unset \<open>GEMINI_API_KEY\<close>.
\<close>

record evaluate_body =
  body_questions :: "question list option"
  body_answers :: "string list option"
  body_sessionId :: "string option"

record detailed_result =
  dr_question_id :: nat
  dr_skill :: string
  dr_score :: jsnum
  dr_verdict :: string
  dr_feedback :: string
  dr_strengths :: "string list"
  dr_improvements :: "string list"

record evaluate_ok =
  ok_verification_status :: string
  ok_is_verified :: bool
  ok_average_score :: jsnum
  ok_passing_threshold :: int
  ok_summary :: eval_summary
  ok_detailed_results :: "detailed_result list"

datatype evaluate_response = Failure nat string | Success evaluate_ok

record route_state =
  evaluationCache :: "string \<rightharpoonup> evaluation_result"
  oracle_calls :: "oracle_request list"

definition to_detailed :: "individual_evaluation \<Rightarrow> detailed_result" where
  "to_detailed e =
     \<lparr>dr_question_id = question_id e, dr_skill = skill e,
      dr_score = score (evaluation e), dr_verdict = verdict (evaluation e),
      dr_feedback = feedback (evaluation e), dr_strengths = strengths (evaluation e),
      dr_improvements = improvements (evaluation e)\<rparr>"

definition post_evaluate ::
  "eval_oracle \<Rightarrow> string option \<Rightarrow> route_state \<Rightarrow> evaluate_body
     \<Rightarrow> route_state \<times> evaluate_response" where
  "post_evaluate orc geminiApiKey st body =
     (case body_questions body of
        None \<Rightarrow> (st, Failure 400 ''questions array is required'')
      | Some questions \<Rightarrow>
     (case body_answers body of
        None \<Rightarrow> (st, Failure 400 ''answers array is required'')
      | Some answers \<Rightarrow>
          if length questions \<noteq> length answers
          then (st, Failure 400 ''Number of questions must match number of answers'')
          else if geminiApiKey = None \<or> geminiApiKey = Some []
          then (st, Failure 500 ''GEMINI_API_KEY not configured'')
          else
            (case evaluateAllAnswers orc (oracle_calls st) questions answers of
               (calls', Inl (Error msg)) \<Rightarrow> (st\<lparr>oracle_calls := calls'\<rparr>, Failure 500 msg)
             | (calls', Inr evaluationResult) \<Rightarrow>
                 (st\<lparr>oracle_calls := calls',
                     evaluationCache :=
                       (case body_sessionId body of
                          None \<Rightarrow> evaluationCache st
                        | Some sessionId \<Rightarrow>
                            if sessionId = [] then evaluationCache st
                            else (evaluationCache st)(sessionId \<mapsto> evaluationResult))\<rparr>,
                  Success
                    \<lparr>ok_verification_status = status (summary evaluationResult),
                     ok_is_verified = is_verified evaluationResult,
                     ok_average_score = average_score evaluationResult,
                     ok_passing_threshold = passing_threshold evaluationResult,
                     ok_summary = summary evaluationResult,
                     ok_detailed_results =
                       map to_detailed (individual_evaluations evaluationResult)\<rparr>))))"

text \<open>\<open>GET /api/answers/evaluation/:sessionId\<close> reads the cache.\<close>

definition get_evaluation :: "route_state \<Rightarrow> string \<Rightarrow> evaluation_result option" where
  "get_evaluation st sessionId = evaluationCache st sessionId"

section \<open>ragService.js\<close>

record job =
  job_id :: nat
  company_name :: string
  job_role :: string
  required_skills :: "jsstring list"
  company_email :: string
  job_description :: string
  location :: string
  salary_range :: string

text \<open>\<open>skillsLower.some(cSkill => cSkill.includes(reqSkill) || reqSkill.includes(cSkill))\<close>\<close>

definition some_skill_matches :: "jsstring list \<Rightarrow> jsstring \<Rightarrow> bool" where
  "some_skill_matches skillsLower reqSkill =
     list_ex (\<lambda>cSkill. str_includes cSkill reqSkill \<or> str_includes reqSkill cSkill) skillsLower"

text \<open>The \<open>forEach\<close> of \<open>_calculateMatchScore\<close> that counts into \<open>matches\<close>.\<close>

fun count_matches :: "jsstring list \<Rightarrow> jsstring list \<Rightarrow> nat \<Rightarrow> nat" where
  "count_matches skillsLower [] matches = matches"
| "count_matches skillsLower (reqSkill # rest) matches =
     count_matches skillsLower rest
       (if some_skill_matches skillsLower reqSkill then matches + 1 else matches)"

definition calculateMatchScore ::
  "(jsstring \<Rightarrow> jsstring) \<Rightarrow> jsstring list \<Rightarrow> job \<Rightarrow> rat" where
  "calculateMatchScore unicode_lower candidateSkills j =
     (if length (required_skills j) = 0 then 0
      else
        let skillsLower = map (toLowerCase unicode_lower) candidateSkills;
            requiredLower = map (toLowerCase unicode_lower) (required_skills j);
            matches = count_matches skillsLower requiredLower 0
        in (of_nat matches / of_nat (length requiredLower)) * 100)"

text \<open>The \<open>forEach\<close> of \<open>_findMatchedSkills\<close> that pushes onto \<open>matched\<close>.\<close>

fun push_matched ::
  "(jsstring \<Rightarrow> jsstring) \<Rightarrow> jsstring list \<Rightarrow> jsstring list \<Rightarrow> jsstring list
     \<Rightarrow> jsstring list" where
  "push_matched unicode_lower skillsLower [] matched = matched"
| "push_matched unicode_lower skillsLower (reqSkill # rest) matched =
     push_matched unicode_lower skillsLower rest
       (if some_skill_matches skillsLower (toLowerCase unicode_lower reqSkill)
        then matched @ [reqSkill] else matched)"

definition findMatchedSkills ::
  "(jsstring \<Rightarrow> jsstring) \<Rightarrow> jsstring list \<Rightarrow> job \<Rightarrow> jsstring list" where
  "findMatchedSkills unicode_lower candidateSkills j =
     (let skillsLower = map (toLowerCase unicode_lower) candidateSkills
      in push_matched unicode_lower skillsLower (required_skills j) [])"

subsection \<open>The catalog and its loader\<close>

record rag_service =
  jobs :: "job list"
  jobIndex :: "nat \<rightharpoonup> job"

text \<open>
  The code units that \<open>trim\<close> removes: the white space and the line terminators of the
  language, that is tab, LF, VT, FF, CR, the space, the no-break space, U+1680, U+2000 to
  U+200A, U+2028, U+2029, U+202F, U+205F, U+3000 and U+FEFF.
\<close>

definition is_space :: "nat \<Rightarrow> bool" where
  "is_space u =
     (u \<in> set [9, 10, 11, 12, 13, 32, 160, 5760, 8192, 8193, 8194, 8195, 8196, 8197, 8198,
               8199, 8200, 8201, 8202, 8232, 8233, 8239, 8287, 12288, 65279])"

definition trim :: "jsstring \<Rightarrow> jsstring" where
  "trim s = rev (dropWhile is_space (rev (dropWhile is_space s)))"

text \<open>\<open>s.split(',')\<close>: the pieces between the commas (code unit 44), empty pieces included.\<close>

fun split_comma :: "jsstring \<Rightarrow> jsstring list" where
  "split_comma [] = [[]]"
| "split_comma (c # cs) =
     (if c = 44 then [] # split_comma cs
      else case split_comma cs of
             [] \<Rightarrow> [[c]]
           | w # ws \<Rightarrow> (c # w) # ws)"

text \<open>A column that the row lacks is \<open>undefined\<close>, here \<open>None\<close>.\<close>

definition parseSkills :: "jsstring option \<Rightarrow> jsstring list" where
  "parseSkills skillsString =
     (case skillsString of
        None \<Rightarrow> []
      | Some s \<Rightarrow>
          if s = [] then []
          else filter (\<lambda>t. length t > 0) (map trim (split_comma s)))"

record csv_row =
  row_company_name :: "string option"
  row_job_role :: "string option"
  row_required_skills :: "jsstring option"
  row_company_email :: "string option"
  row_job_description :: "string option"
  row_location :: "string option"
  row_salary_range :: "string option"

text \<open>\<open>x || ''\<close> on a column.\<close>

definition or_empty :: "string option \<Rightarrow> string" where
  "or_empty x = (case x of None \<Rightarrow> [] | Some s \<Rightarrow> s)"

text \<open>The handler of the parser's \<open>data\<close> event.\<close>

definition on_data :: "rag_service \<Rightarrow> csv_row \<Rightarrow> rag_service" where
  "on_data this row =
     (let j = \<lparr>job_id = length (jobs this) + 1,
                company_name = or_empty (row_company_name row),
                job_role = or_empty (row_job_role row),
                required_skills = parseSkills (row_required_skills row),
                company_email = or_empty (row_company_email row),
                job_description = or_empty (row_job_description row),
                location = or_empty (row_location row),
                salary_range = or_empty (row_salary_range row)\<rparr>
      in this\<lparr>jobs := jobs this @ [j], jobIndex := (jobIndex this)(job_id j \<mapsto> j)\<rparr>)"

text \<open>
  What the file system holds at a path: nothing (\<open>fs.existsSync\<close> is false), or a file
  whose rows reach the parser until one of three things happens. The parser ends, and
  its \<open>end\<close> handler resolves the promise. The parser fails, and its \<open>error\<close> handler
  rejects the promise. Or the file stream itself fails (the path is a directory, the file
  cannot be read): the handlers are attached to the parser that \<open>pipe\<close> returns, the
  file stream has no \<open>error\<close> listener, and neither \<open>resolve\<close> nor \<open>reject\<close> is ever
  called. A promise that never settles is the result \<open>None\<close>.
\<close>

datatype stream_end = Ended | ParserError string | ReadError string

datatype csv_source = NotFound | Stream "csv_row list" stream_end

definition loadJobsData ::
  "(string \<Rightarrow> csv_source) \<Rightarrow> rag_service \<Rightarrow> string
     \<Rightarrow> rag_service \<times> (error + job list) option" where
  "loadJobsData fs this csvPath =
     (let this0 = this\<lparr>jobs := [], jobIndex := Map.empty\<rparr>
      in case fs csvPath of
           NotFound \<Rightarrow> (this0, Some (Inl (Error (''Jobs CSV file not found: '' @ csvPath))))
         | Stream rows outcome \<Rightarrow>
             (let this1 = foldl on_data this0 rows
              in (case outcome of
                    Ended \<Rightarrow> (this1, Some (Inr (jobs this1)))
                  | ParserError msg \<Rightarrow>
                      (this1, Some (Inl (Error (''Failed to load jobs CSV: '' @ msg))))
                  | ReadError msg \<Rightarrow> (this1, None))))"

definition getAllJobs :: "rag_service \<Rightarrow> job list" where
  "getAllJobs this = jobs this"

definition getJobById :: "rag_service \<Rightarrow> nat \<Rightarrow> job option" where
  "getJobById this jobId = jobIndex this jobId"

subsection \<open>Matching\<close>

record job_match =
  job_of :: job
  match_score :: rat
  matched_skills :: "jsstring list"

record matched_job =
  mj_id :: nat
  mj_company_name :: string
  mj_job_role :: string
  mj_company_email :: string
  mj_location :: string
  mj_salary_range :: string
  mj_required_skills :: "jsstring list"
  mj_match_score :: int
  mj_matched_skills :: "jsstring list"
  mj_application_status :: string

datatype match_result =
    Unverified (matched_jobs: "matched_job list") (message: string) (reason: string)
  | Matched (matched_jobs: "matched_job list") (total_matches: nat)
      (candidate_score: jsnum) (verification_status: string)

text \<open>\<open>xs.slice(0, e)\<close>: a negative \<open>e\<close> counts from the end of the array.\<close>

definition slice_from_0 :: "'a list \<Rightarrow> int \<Rightarrow> 'a list" where
  "slice_from_0 xs e =
     (if e < 0 then take (nat (int (length xs) + e)) xs else take (nat e) xs)"

definition to_match :: "(jsstring \<Rightarrow> jsstring) \<Rightarrow> jsstring list \<Rightarrow> job \<Rightarrow> job_match" where
  "to_match unicode_lower candidateSkills j =
     \<lparr>job_of = j,
      match_score = calculateMatchScore unicode_lower candidateSkills j,
      matched_skills = findMatchedSkills unicode_lower candidateSkills j\<rparr>"

definition to_matched_job :: "job_match \<Rightarrow> matched_job" where
  "to_matched_job m =
     \<lparr>mj_id = job_id (job_of m),
      mj_company_name = company_name (job_of m),
      mj_job_role = job_role (job_of m),
      mj_company_email = company_email (job_of m),
      mj_location = location (job_of m),
      mj_salary_range = salary_range (job_of m),
      mj_required_skills = required_skills (job_of m),
      mj_match_score = round_half_up (match_score m),
      mj_matched_skills = matched_skills m,
      mj_application_status = ''pending''\<rparr>"

text \<open>
  \<open>matches.sort((a, b) => b.match_score - a.match_score)\<close> followed by the filter.
  \<open>Array.prototype.sort\<close> is stable, and the comparator orders by descending score, so
  the result is the one stable arrangement by descending score: the insertion sort
  \<open>sort_key\<close> on the negated score computes it.
\<close>

definition filteredMatches ::
  "(jsstring \<Rightarrow> jsstring) \<Rightarrow> jsstring list \<Rightarrow> job list \<Rightarrow> job_match list" where
  "filteredMatches unicode_lower candidateSkills js =
     (let matches = map (to_match unicode_lower candidateSkills) js;
          sorted_matches = sort_key (\<lambda>m. - match_score m) matches
      in filter (\<lambda>m. 40 \<le> match_score m) sorted_matches)"

definition retrieveMatchingJobs ::
  "(jsstring \<Rightarrow> jsstring) \<Rightarrow> rag_service \<Rightarrow> jsstring list \<Rightarrow> evaluation_result \<Rightarrow> int
     \<Rightarrow> error + match_result" where
  "retrieveMatchingJobs unicode_lower this candidateSkills evaluationResult topK =
     (if length (jobs this) = 0 then Inl (Error ''No jobs loaded. Call loadJobsData first.'')
      else if \<not> is_verified evaluationResult
      then Inr (Unverified [] ''Candidate not verified. No job applications sent.''
                  ''verification_failed'')
      else
        let fm = filteredMatches unicode_lower candidateSkills (jobs this)
        in Inr (Matched (map to_matched_job (slice_from_0 fm topK)) (length fm)
                  (average_score evaluationResult) ''VERIFIED''))"

section \<open>The email service: \<open>sendApplicationEmail\<close> and \<open>sendBatchApplications\<close>\<close>

text \<open>
  The mail transport is a parameter: given how many mails were handed to it before and the
  mail, \<open>transporter.sendMail\<close> either fails with a message or yields a message id. The
  subject, the body and the attachment name of a mail are built from the four fields of
  \<open>emailData\<close>, so a mail is the record of those four and the attached PDF. The clock
  gives the text of \<open>new Date().toISOString()\<close> after the n-th send.
\<close>

record candidate_info =
  ci_name :: string
  ci_email :: string

record mail =
  mail_to :: string
  mail_candidateName :: string
  mail_jobRole :: string
  mail_companyName :: string
  mail_resumePDF :: string

record send_result =
  sr_success :: bool
  sr_messageId :: string
  sr_to :: string
  sr_timestamp :: string

type_synonym transporter = "nat \<Rightarrow> mail \<Rightarrow> string + string"

definition sendApplicationEmail ::
  "transporter \<Rightarrow> (nat \<Rightarrow> string) \<Rightarrow> mail list \<Rightarrow> mail \<Rightarrow> mail list \<times> (error + send_result)" where
  "sendApplicationEmail tr clock sent m =
     (case tr (length sent) m of
        Inl msg \<Rightarrow>
          (sent @ [m],
           Inl (Error (''Failed to send email to '' @ mail_to m @ '': '' @ msg)))
      | Inr mid \<Rightarrow>
          (sent @ [m],
           Inr \<lparr>sr_success = True, sr_messageId = mid, sr_to = mail_to m,
                sr_timestamp = clock (length sent)\<rparr>))"

record application_record =
  company :: string
  jobRole :: string
  email :: string
  app_status :: string
  timestamp :: "string option"
  error_message :: "string option"

definition mail_for :: "candidate_info \<Rightarrow> string \<Rightarrow> matched_job \<Rightarrow> mail" where
  "mail_for candidateInfo resumePDF j =
     \<lparr>mail_to = mj_company_email j, mail_candidateName = ci_name candidateInfo,
      mail_jobRole = mj_job_role j, mail_companyName = mj_company_name j,
      mail_resumePDF = resumePDF\<rparr>"

text \<open>
  The \<open>for ... of\<close> loop of \<open>sendBatchApplications\<close>, with its \<open>try\<close>/\<open>catch\<close>
  around each send. The pause after each send does not change any value.
\<close>

fun send_loop ::
  "transporter \<Rightarrow> (nat \<Rightarrow> string) \<Rightarrow> mail list \<Rightarrow> candidate_info \<Rightarrow> string
     \<Rightarrow> matched_job list \<Rightarrow> application_record list
     \<Rightarrow> mail list \<times> application_record list" where
  "send_loop tr clock sent candidateInfo resumePDF [] results = (sent, results)"
| "send_loop tr clock sent candidateInfo resumePDF (j # rest) results =
     (case sendApplicationEmail tr clock sent (mail_for candidateInfo resumePDF j) of
        (sent', Inr result) \<Rightarrow>
          send_loop tr clock sent' candidateInfo resumePDF rest
            (results @
               [\<lparr>company = mj_company_name j, jobRole = mj_job_role j,
                 email = mj_company_email j, app_status = ''sent'',
                 timestamp = Some (sr_timestamp result), error_message = None\<rparr>])
      | (sent', Inl (Error msg)) \<Rightarrow>
          send_loop tr clock sent' candidateInfo resumePDF rest
            (results @
               [\<lparr>company = mj_company_name j, jobRole = mj_job_role j,
                 email = mj_company_email j, app_status = ''failed'',
                 timestamp = None, error_message = Some msg\<rparr>]))"

text \<open>
  The function is \<open>async\<close>: its promise is fulfilled with the records (\<open>Inr\<close>) or
  rejected with an error (\<open>Inl\<close>).
\<close>

definition sendBatchApplications ::
  "transporter \<Rightarrow> (nat \<Rightarrow> string) \<Rightarrow> mail list \<Rightarrow> matched_job list \<Rightarrow> candidate_info \<Rightarrow> string
     \<Rightarrow> mail list \<times> (error + application_record list)" where
  "sendBatchApplications tr clock sent matchedJobs candidateInfo resumePDF =
     (case send_loop tr clock sent candidateInfo resumePDF matchedJobs [] of
        (sent', results) \<Rightarrow> (sent', Inr results))"

section \<open>The specification's wording\<close>

text \<open>
  Case folding in the words of the specification: every upper-case letter is replaced by
  its lower-case letter. Below 256 the upper-case letters and their lower-case letters
  are listed in pairs: A to Z with a to z, U+00C0 to U+00D6 with U+00E0 to U+00F6, and
  U+00D8 to U+00DE with U+00F8 to U+00FE. Beyond, the pairs are those of the runtime's
  tables.
\<close>

definition letter_pairs :: "(nat \<times> nat) list" where
  "letter_pairs =
     zip ([65 ..< 91] @ [192 ..< 215] @ [216 ..< 223])
         ([97 ..< 123] @ [224 ..< 247] @ [248 ..< 255])"

definition spec_fold_unit :: "nat \<Rightarrow> nat" where
  "spec_fold_unit u = (case map_of letter_pairs u of Some l \<Rightarrow> l | None \<Rightarrow> u)"

definition spec_case_fold :: "(jsstring \<Rightarrow> jsstring) \<Rightarrow> jsstring \<Rightarrow> jsstring" where
  "spec_case_fold unicode_lower s =
     (if \<forall>u \<in> set s. u < 256 then map spec_fold_unit s else unicode_lower s)"

text \<open>
  The containment test in the words of the specification: some candidate skill,
  case-folded, is a substring of the case-folded required skill, or the other way round.
\<close>

definition spec_skill_satisfied ::
  "(jsstring \<Rightarrow> jsstring) \<Rightarrow> jsstring list \<Rightarrow> jsstring \<Rightarrow> bool" where
  "spec_skill_satisfied unicode_lower candidateSkills reqSkill =
     (\<exists>c \<in> set candidateSkills.
        sublist (spec_case_fold unicode_lower c) (spec_case_fold unicode_lower reqSkill) \<or>
        sublist (spec_case_fold unicode_lower reqSkill) (spec_case_fold unicode_lower c))"

text \<open>
  The score in the words of the specification: the share of required skills that pass the
  containment test, times 100; 0 for a job without required skills.
\<close>

definition spec_match_score ::
  "(jsstring \<Rightarrow> jsstring) \<Rightarrow> jsstring list \<Rightarrow> jsstring list \<Rightarrow> rat" where
  "spec_match_score unicode_lower candidateSkills required =
     (if required = [] then 0
      else of_nat (length (filter (spec_skill_satisfied unicode_lower candidateSkills) required))
             / of_nat (length required) * 100)"

text \<open>
  The ranking in the order the specification gives it: first keep the jobs that reach
  the floor of 40, then sort them by descending score, stably.
\<close>

definition spec_ranking ::
  "(jsstring \<Rightarrow> jsstring) \<Rightarrow> jsstring list \<Rightarrow> job list \<Rightarrow> job_match list" where
  "spec_ranking unicode_lower candidateSkills js =
     sort_key (\<lambda>m. - match_score m)
       (filter (\<lambda>m. 40 \<le> match_score m) (map (to_match unicode_lower candidateSkills) js))"

text \<open>The arithmetic mean of a list of whole scores, as an exact rational.\<close>

definition spec_mean :: "int list \<Rightarrow> rat" where
  "spec_mean scores = of_int (sum_list scores) / of_nat (length scores)"

section \<open>Notions used in the statements\<close>

text \<open>The request that \<open>evaluateAnswer\<close> sends for a question and its answer.\<close>

definition request_for :: "question \<times> string \<Rightarrow> oracle_request" where
  "request_for p =
     \<lparr>req_question = q_question (fst p), req_correctAnswer = q_correct_answer (fst p),
      req_userAnswer = snd p, req_keywords = q_keywords (fst p)\<rparr>"

text \<open>The object that \<open>evaluateAnswer\<close> returns for a reply of the oracle.\<close>

definition returned_evaluation :: "oracle_evaluation \<Rightarrow> answer_evaluation" where
  "returned_evaluation ev =
     \<lparr>score = Math_max 0 (Math_min 100 (score ev)), accuracy = accuracy ev,
      completeness = completeness ev, clarity = clarity ev,
      keyword_score = keyword_score ev, verdict = verdict ev,
      feedback = feedback ev, strengths = strengths ev,
      improvements = improvements ev,
      passed = js_ge (Math_max 0 (Math_min 100 (score ev))) 70\<rparr>"

text \<open>The entry that the loop of \<open>evaluateAllAnswers\<close> pushes.\<close>

definition pushed_evaluation :: "question \<Rightarrow> string \<Rightarrow> answer_evaluation \<Rightarrow> individual_evaluation" where
  "pushed_evaluation q answer ev =
     \<lparr>question_id = q_id q, skill = q_skill q, question_text = q_question q,
      user_answer = answer, evaluation = ev\<rparr>"

text \<open>The scores of a result, one per question, in the order of the questions.\<close>

definition scores_of :: "evaluation_result \<Rightarrow> jsnum list" where
  "scores_of r = map (\<lambda>e. score (evaluation e)) (individual_evaluations r)"

text \<open>A score is in bounds when it is a number from 0 to 100.\<close>

fun in_bounds :: "jsnum \<Rightarrow> bool" where
  "in_bounds (Num q) = (0 \<le> q \<and> q \<le> 100)"
| "in_bounds NaN = False"
| "in_bounds PosInf = False"
| "in_bounds NegInf = False"

text \<open>A whole score as a number.\<close>

definition whole :: "int \<Rightarrow> jsnum" where
  "whole k = Num (of_int k)"

text \<open>
  The record that the loop pushes for a job whose mail is the n-th one handed to the
  transport.
\<close>

definition attempt_record ::
  "transporter \<Rightarrow> (nat \<Rightarrow> string) \<Rightarrow> nat \<Rightarrow> candidate_info \<Rightarrow> string \<Rightarrow> matched_job
     \<Rightarrow> application_record" where
  "attempt_record tr clock n candidateInfo resumePDF j =
     (case tr n (mail_for candidateInfo resumePDF j) of
        Inr mid \<Rightarrow>
          \<lparr>company = mj_company_name j, jobRole = mj_job_role j, email = mj_company_email j,
           app_status = ''sent'', timestamp = Some (clock n), error_message = None\<rparr>
      | Inl msg \<Rightarrow>
          \<lparr>company = mj_company_name j, jobRole = mj_job_role j, email = mj_company_email j,
           app_status = ''failed'', timestamp = None,
           error_message =
             Some (''Failed to send email to '' @ mj_company_email j @ '': '' @ msg)\<rparr>)"

text \<open>The records for a list of jobs, the first of which gets the n-th mail.\<close>

fun attempt_records ::
  "transporter \<Rightarrow> (nat \<Rightarrow> string) \<Rightarrow> nat \<Rightarrow> candidate_info \<Rightarrow> string \<Rightarrow> matched_job list
     \<Rightarrow> application_record list" where
  "attempt_records tr clock n candidateInfo resumePDF [] = []"
| "attempt_records tr clock n candidateInfo resumePDF (j # rest) =
     attempt_record tr clock n candidateInfo resumePDF j
       # attempt_records tr clock (Suc n) candidateInfo resumePDF rest"

section \<open>Example data\<close>

text \<open>The code units of a text whose characters all lie below 256.\<close>

definition units :: "string \<Rightarrow> jsstring" where
  "units s = map of_char s"

text \<open>
  The examples use strings below 256 only, for which the runtime's tables are not
  consulted; in their place stands the identity.
\<close>

definition plain_lower :: "jsstring \<Rightarrow> jsstring" where
  "plain_lower s = s"

definition job_with_skills :: "nat \<Rightarrow> string list \<Rightarrow> job" where
  "job_with_skills n sk =
     \<lparr>job_id = n, company_name = ''Acme'', job_role = ''Engineer'',
      required_skills = map units sk,
      company_email = ''jobs@acme.example'', job_description = ''Build things'',
      location = ''Remote'', salary_range = ''1-2''\<rparr>"

definition example_catalog :: rag_service where
  "example_catalog =
     \<lparr>jobs = [job_with_skills 1 [''Python'', ''SQL''],
              job_with_skills 2 [''python''],
              job_with_skills 3 [''Java'', ''Go'', ''Rust''],
              job_with_skills 4 [''SQL'', ''Python''],
              job_with_skills 5 []],
      jobIndex = Map.empty\<rparr>"

definition verified_result :: evaluation_result where
  "verified_result =
     \<lparr>is_verified = True, average_score = Num 75, total_score = Num 375,
      passing_threshold = 70, individual_evaluations = [],
      summary = \<lparr>passed_questions = 4, total_questions = 5, status = ''VERIFIED''\<rparr>\<rparr>"

definition unverified_result :: evaluation_result where
  "unverified_result =
     \<lparr>is_verified = False, average_score = Num 50, total_score = Num 250,
      passing_threshold = 70, individual_evaluations = [],
      summary = \<lparr>passed_questions = 0, total_questions = 5, status = ''NOT_VERIFIED''\<rparr>\<rparr>"

text \<open>
  An oracle that answers the n-th call with the n-th score of a list, the subscores and
  texts fixed, and fails once the list is used up.
\<close>

definition oracle_of_scores :: "jsnum list \<Rightarrow> eval_oracle" where
  "oracle_of_scores scores n req =
     (if n < length scores
      then Inr \<lparr>score = scores ! n, accuracy = Num 10, completeness = Num 10,
                clarity = Num 10, keyword_score = Num 5, verdict = ''pass'',
                feedback = ''ok'', strengths = [], improvements = []\<rparr>
      else Inl ''quota exceeded'')"

definition example_question :: "nat \<Rightarrow> question" where
  "example_question n =
     \<lparr>q_id = n, q_skill = ''Python'', q_question = ''What is a list?'',
      q_correct_answer = ''A sequence'', q_keywords = [''sequence'']\<rparr>"

definition five_questions :: "question list" where
  "five_questions = map example_question [1, 2, 3, 4, 5]"

definition five_answers :: "string list" where
  "five_answers = [''a1'', ''a2'', ''a3'', ''a4'', ''a5'']"

definition three_questions :: "question list" where
  "three_questions = map example_question [1, 2, 3]"

definition three_answers :: "string list" where
  "three_answers = [''a1'', ''a2'', ''a3'']"

definition empty_route_state :: route_state where
  "empty_route_state = \<lparr>evaluationCache = Map.empty, oracle_calls = []\<rparr>"

definition example_body :: evaluate_body where
  "example_body =
     \<lparr>body_questions = Some three_questions, body_answers = Some three_answers,
      body_sessionId = Some ''session-1''\<rparr>"

definition example_rows :: "csv_row list" where
  "example_rows =
     [\<lparr>row_company_name = Some ''Acme'', row_job_role = Some ''Engineer'',
       row_required_skills = Some (units ''Python, SQL ,,Docker''),
       row_company_email = Some ''jobs@acme.example'', row_job_description = None,
       row_location = Some ''Remote'', row_salary_range = None\<rparr>,
      \<lparr>row_company_name = Some ''Globex'', row_job_role = Some ''Analyst'',
       row_required_skills = None,
       row_company_email = Some ''hr@globex.example'', row_job_description = None,
       row_location = None, row_salary_range = None\<rparr>]"

definition example_fs :: "string \<Rightarrow> csv_source" where
  "example_fs p = (if p = ''jobsdata.csv'' then Stream example_rows Ended else NotFound)"

definition empty_service :: rag_service where
  "empty_service = \<lparr>jobs = [], jobIndex = Map.empty\<rparr>"

definition loaded_service :: rag_service where
  "loaded_service = fst (loadJobsData example_fs empty_service ''jobsdata.csv'')"

definition flaky_transporter :: transporter where
  "flaky_transporter n m = (if n = 1 then Inl ''invalid recipient'' else Inr ''message-id'')"

definition example_clock :: "nat \<Rightarrow> string" where
  "example_clock n = (if n = 0 then ''2024-01-01T00:00:00.000Z'' else ''2024-01-01T00:00:02.000Z'')"

definition example_candidate :: candidate_info where
  "example_candidate = \<lparr>ci_name = ''Ada'', ci_email = ''ada@example.org''\<rparr>"

definition example_matched_jobs :: "matched_job list" where
  "example_matched_jobs =
     map (\<lambda>j. to_matched_job \<lparr>job_of = j, match_score = 100, matched_skills = required_skills j\<rparr>)
       [job_with_skills 2 [''python''], job_with_skills 1 [''Python'', ''SQL''],
        job_with_skills 4 [''SQL'', ''Python'']]"

section \<open>Verification\<close>

subsection \<open>Substring search and the two skill loops\<close>

lemma starts_at_prefix: "starts_at s t \<longleftrightarrow> prefix t s"
  by (induction s t rule: starts_at.induct) auto

lemma str_includes_sublist: "str_includes s t \<longleftrightarrow> sublist t s"
  by (induction s) (auto simp: starts_at_prefix sublist_Cons_right)

lemma count_matches_filter:
  "count_matches sl rs n = n + length (filter (some_skill_matches sl) rs)"
  by (induction rs arbitrary: n) auto

lemma push_matched_filter:
  "push_matched ul sl rs acc = acc @ filter (\<lambda>r. some_skill_matches sl (toLowerCase ul r)) rs"
  by (induction rs arbitrary: acc) auto

lemma upt_shift: "map (\<lambda>i. i + n) [a ..< b] = [a + n ..< b + n]"
  by (induction b) (auto simp: Suc_le_eq not_less)

lemma letter_pairs_eq:
  "letter_pairs
     = zip ([65 ..< 91] @ [192 ..< 215] @ [216 ..< 223])
         (map (\<lambda>u. u + 32) ([65 ..< 91] @ [192 ..< 215] @ [216 ..< 223]))"
  using upt_shift [of 32 65 91] upt_shift [of 32 192 215] upt_shift [of 32 216 223]
  by (simp add: letter_pairs_def)

lemma letter_mem:
  "u \<in> set ([65 ..< 91] @ [192 ..< 215] @ [216 ..< 223])
     \<longleftrightarrow> (65 \<le> u \<and> u \<le> 90) \<or> (192 \<le> u \<and> u \<le> 222 \<and> u \<noteq> 215)"
proof -
  have "u \<in> set ([65 ..< 91] @ [192 ..< 215] @ [216 ..< 223])
     \<longleftrightarrow> (65 \<le> u \<and> u < 91) \<or> (192 \<le> u \<and> u < 215) \<or> (216 \<le> u \<and> u < 223)"
    by (simp only: set_append set_upt Un_iff atLeastLessThan_iff)
  then show ?thesis by arith
qed

lemma spec_fold_unit_eq: "spec_fold_unit u = latin1_lower u"
proof -
  have m: "map_of letter_pairs u
             = (if (65 \<le> u \<and> u \<le> 90) \<or> (192 \<le> u \<and> u \<le> 222 \<and> u \<noteq> 215)
                then Some (u + 32) else None)"
    by (simp only: letter_pairs_eq map_of_zip_map letter_mem)
  show ?thesis
    unfolding spec_fold_unit_def latin1_lower_def m
    by (simp only: option.case if_distrib [of "case_option u (\<lambda>l. l)"] cong: if_cong)
qed

lemma toLowerCase_spec: "toLowerCase ul s = spec_case_fold ul s"
  by (simp add: toLowerCase_def spec_case_fold_def list_all_iff spec_fold_unit_eq)

lemma toLowerCase_empty: "toLowerCase ul [] = []"
  by (simp add: toLowerCase_def)

lemma some_skill_matches_spec:
  "some_skill_matches (map (toLowerCase ul) cs) (toLowerCase ul r) = spec_skill_satisfied ul cs r"
  by (auto simp: some_skill_matches_def spec_skill_satisfied_def list_ex_iff
      str_includes_sublist toLowerCase_spec)

lemma filter_lower_required:
  "filter (some_skill_matches (map (toLowerCase ul) cs) \<circ> toLowerCase ul) rs
     = filter (spec_skill_satisfied ul cs) rs"
  by (simp add: comp_def some_skill_matches_spec)

lemma calculateMatchScore_spec:
  "calculateMatchScore ul cs j = spec_match_score ul cs (required_skills j)"
  by (simp add: calculateMatchScore_def spec_match_score_def count_matches_filter
      filter_lower_required Let_def)

lemma findMatchedSkills_spec:
  "findMatchedSkills ul cs j = filter (spec_skill_satisfied ul cs) (required_skills j)"
  by (simp add: findMatchedSkills_def push_matched_filter some_skill_matches_spec)

subsection \<open>The ranked list\<close>

lemma filteredMatches_set:
  "set (filteredMatches ul cs js) = {m \<in> to_match ul cs ` set js. 40 \<le> match_score m}"
  by (auto simp: filteredMatches_def Let_def)


lemma filteredMatches_spec_ranking:
  "filteredMatches ul cs js = spec_ranking ul cs js"
  by (simp add: filteredMatches_def spec_ranking_def filter_sort)

lemma filteredMatches_sorted:
  "sorted_wrt (\<lambda>a b. match_score b \<le> match_score a) (filteredMatches ul cs js)"
proof -
  have "sorted (map (\<lambda>m. - match_score m) (filteredMatches ul cs js))"
    unfolding filteredMatches_def Let_def by (rule sorted_filter) (rule sorted_sort_key)
  then show ?thesis by (simp add: sorted_map)
qed

lemma filteredMatches_stable:
  "filter (\<lambda>m. match_score m = s) (filteredMatches ul cs js)
     = (if 40 \<le> s then filter (\<lambda>m. match_score m = s) (map (to_match ul cs) js) else [])"
proof -
  let ?f = "\<lambda>m::job_match. - match_score m"
  let ?xs = "map (to_match ul cs) js"
  have eq: "(\<lambda>m::job_match. match_score m = s) = (\<lambda>m. ?f m = - s)" by auto
  have "filter (\<lambda>m. match_score m = s) (filteredMatches ul cs js)
          = filter (\<lambda>m. 40 \<le> match_score m) (filter (\<lambda>m. ?f m = - s) (sort_key ?f ?xs))"
    unfolding filteredMatches_def Let_def eq by (simp add: conj_commute)
  also have "\<dots> = filter (\<lambda>m. 40 \<le> match_score m) (filter (\<lambda>m. ?f m = - s) ?xs)"
    by (simp only: sort_key_stable)
  also have "\<dots> = (if 40 \<le> s then filter (\<lambda>m. match_score m = s) ?xs else [])"
    by (auto simp: filter_empty_conv intro: filter_cong)
  finally show ?thesis .
qed

lemma filteredMatches_length:
  "length (filteredMatches ul cs js) = length (filter (\<lambda>j. 40 \<le> calculateMatchScore ul cs j) js)"
  by (simp add: filteredMatches_def filter_sort filter_map comp_def to_match_def)

lemma round_half_up_mono: "x \<le> y \<Longrightarrow> round_half_up x \<le> round_half_up y"
  by (simp add: round_half_up_def floor_mono)

lemma round_half_up_of_int: "round_half_up (of_int n) = n"
  unfolding round_half_up_def by linarith

lemma round_half_up_ge_40: "40 \<le> x \<Longrightarrow> 40 \<le> round_half_up x"
  using round_half_up_mono [of 40 x] round_half_up_of_int [of 40] by simp

lemma slice_from_0_take: "0 \<le> e \<Longrightarrow> slice_from_0 xs e = take (nat e) xs"
  by (simp add: slice_from_0_def)

lemma slice_from_0_is_take: "\<exists>n. slice_from_0 xs e = take n xs"
  by (auto simp: slice_from_0_def)

lemma example_ranked:
  "map (\<lambda>m. (job_id (job_of m), match_score m)) (filteredMatches plain_lower [units ''Python''] (jobs example_catalog))
     = [(2, 100), (1, 50), (4, 50)]"
  by code_simp

subsection \<open>A candidate skill that is the empty string\<close>

lemma empty_skill_satisfies: "[] \<in> set cs \<Longrightarrow> spec_skill_satisfied ul cs r"
  unfolding spec_skill_satisfied_def
  by (rule bexI [of _ "[]"]) (simp_all add: spec_case_fold_def)

lemma empty_skill_score:
  assumes "[] \<in> set cs"
  shows "calculateMatchScore ul cs j = (if required_skills j = [] then 0 else 100)"
  using assms by (simp add: calculateMatchScore_spec spec_match_score_def empty_skill_satisfies)

lemma sort_key_all_equal:
  assumes "\<forall>x \<in> set xs. f x = k"
  shows "sort_key f xs = xs"
proof -
  have "filter (\<lambda>y. f y = k) (sort_key f xs) = filter (\<lambda>y. f y = k) xs"
    by (rule sort_key_stable)
  moreover have "filter (\<lambda>y. f y = k) (sort_key f xs) = sort_key f xs"
    using assms by (simp add: filter_id_conv)
  moreover have "filter (\<lambda>y. f y = k) xs = xs"
    using assms by (simp add: filter_id_conv)
  ultimately show ?thesis by simp
qed

lemma empty_skill_filteredMatches:
  assumes "[] \<in> set cs"
  shows "filteredMatches ul cs js
           = map (to_match ul cs) (filter (\<lambda>j. required_skills j \<noteq> []) js)"
proof -
  let ?P = "\<lambda>m::job_match. 40 \<le> match_score m"
  have sel: "filter ?P (map (to_match ul cs) js)
               = map (to_match ul cs) (filter (\<lambda>j. required_skills j \<noteq> []) js)"
    using assms by (induction js) (simp_all add: to_match_def empty_skill_score)
  have "\<forall>m \<in> set (filter ?P (map (to_match ul cs) js)). - match_score m = - 100"
    unfolding sel using assms by (auto simp: to_match_def empty_skill_score)
  then have "sort_key (\<lambda>m. - match_score m) (filter ?P (map (to_match ul cs) js))
               = filter ?P (map (to_match ul cs) js)"
    by (rule sort_key_all_equal)
  then show ?thesis
    by (simp add: filteredMatches_def filter_sort sel)
qed


subsection \<open>Numbers\<close>

lemma round_half_up_ge_70: "70 \<le> x \<Longrightarrow> 70 \<le> round_half_up x"
  using round_half_up_mono [of 70 x] round_half_up_of_int [of 70] by simp

lemma Math_round_whole: "Math_round (whole k) = whole k"
  by (simp add: whole_def round_half_up_of_int)

lemma js_ge_Math_round_70: "js_ge x 70 \<Longrightarrow> js_ge (Math_round x) 70"
proof (cases x)
  case (Num q)
  assume "js_ge x 70"
  with Num have "70 \<le> q" by simp
  from round_half_up_ge_70 [OF this]
  have "(of_int 70 :: rat) \<le> of_int (round_half_up q)" by (simp only: of_int_le_iff)
  with Num show ?thesis by simp
qed simp_all

lemma clamp_cases:
  "Math_max 0 (Math_min 100 s)
     = (case s of Num q \<Rightarrow> Num (max 0 (min 100 q)) | NaN \<Rightarrow> NaN
        | PosInf \<Rightarrow> Num 100 | NegInf \<Rightarrow> Num 0)"
  by (cases s) simp_all

lemma clamp_in_bounds: "s \<noteq> NaN \<Longrightarrow> in_bounds (Math_max 0 (Math_min 100 s))"
  by (cases s) simp_all

lemma clamp_NaN_or_in_bounds:
  "Math_max 0 (Math_min 100 s) = NaN \<or> in_bounds (Math_max 0 (Math_min 100 s))"
  by (cases s) simp_all

lemma js_add_whole: "js_add (whole a) (whole b) = whole (a + b)"
  by (simp add: whole_def)

lemma foldl_js_add_whole:
  "foldl js_add (whole t) (map whole ks) = whole (t + sum_list ks)"
  by (induction ks arbitrary: t) (simp_all add: js_add_whole add.assoc)

lemma js_ge_div_whole_70:
  assumes "n = 0 \<Longrightarrow> t = 0"
  shows "js_ge (js_div (whole t) n) 70 = (n \<noteq> 0 \<and> 70 * int n \<le> t)"
proof (cases "n = 0")
  case True
  with assms show ?thesis by (simp add: whole_def)
next
  case False
  then have pos: "(0::rat) < of_nat n" by simp
  have "(70 \<le> (of_int t :: rat) / of_nat n) = ((70::rat) * of_nat n \<le> of_int t)"
    using pos by (simp add: pos_le_divide_eq)
  also have "\<dots> = ((of_int (70 * int n) :: rat) \<le> of_int t)" by simp
  also have "\<dots> = (70 * int n \<le> t)" by (simp only: of_int_le_iff)
  finally show ?thesis using False by (simp add: whole_def)
qed

subsection \<open>The evaluation loop\<close>

lemma evaluateAnswer_eq:
  "evaluateAnswer orc calls (q_question q) a (q_correct_answer q) (q_keywords q)
     = (calls @ [request_for (q, a)],
        case orc (length calls) (request_for (q, a)) of
          Inl msg \<Rightarrow> Inl (Error (''Failed to evaluate answer: '' @ msg))
        | Inr ev \<Rightarrow> Inr (returned_evaluation ev))"
  by (simp add: evaluateAnswer_def request_for_def returned_evaluation_def Let_def
      split: sum.splits)

lemma evaluate_loop_fail:
  assumes "i < length ps" and "isl (orc (length calls + i) (request_for (ps ! i)))"
  shows "\<exists>k\<le>i. \<exists>msg. orc (length calls + k) (request_for (ps ! k)) = Inl msg
           \<and> evaluate_loop orc calls ps evs tot
               = (calls @ map request_for (take (Suc k) ps),
                  Inl (Error (''Failed to evaluate answer: '' @ msg)))"
  using assms
proof (induction ps arbitrary: i calls evs tot)
  case Nil
  then show ?case by simp
next
  case (Cons p rest)
  obtain q a where p: "p = (q, a)" by (cases p)
  show ?case
  proof (cases "orc (length calls) (request_for (q, a))")
    case (Inl msg)
    then have "evaluate_loop orc calls (p # rest) evs tot
                 = (calls @ map request_for (take (Suc 0) (p # rest)),
                    Inl (Error (''Failed to evaluate answer: '' @ msg)))"
      by (simp add: p evaluateAnswer_eq)
    with Inl show ?thesis by (intro exI [of _ 0]) (auto simp: p)
  next
    case (Inr ev)
    with Cons.prems p obtain i' where i': "i = Suc i'" by (cases i) auto
    let ?calls = "calls @ [request_for (q, a)]"
    let ?evs = "evs @ [pushed_evaluation q a (returned_evaluation ev)]"
    let ?tot = "js_add tot (score (returned_evaluation ev))"
    from Cons.prems i' have "i' < length rest"
      and "isl (orc (length ?calls + i') (request_for (rest ! i')))" by simp_all
    from Cons.IH [OF this] obtain k msg where k: "k \<le> i'"
      and f: "orc (length ?calls + k) (request_for (rest ! k)) = Inl msg"
      and r: "evaluate_loop orc ?calls rest ?evs ?tot
            = (?calls @ map request_for (take (Suc k) rest),
               Inl (Error (''Failed to evaluate answer: '' @ msg)))"
      by blast
    have "evaluate_loop orc calls (p # rest) evs tot
            = (calls @ map request_for (take (Suc (Suc k)) (p # rest)),
               Inl (Error (''Failed to evaluate answer: '' @ msg)))"
      using Inr r by (simp add: p evaluateAnswer_eq pushed_evaluation_def)
    with k f i' show ?thesis by (intro exI [of _ "Suc k"]) (auto simp: p)
  qed
qed

lemma evaluate_loop_ok:
  assumes "evaluate_loop orc calls ps evs tot = (calls', Inr (evs', tot'))"
  shows "calls' = calls @ map request_for ps
     \<and> (\<exists>new. evs' = evs @ new \<and> length new = length ps
          \<and> tot' = foldl js_add tot (map (\<lambda>e. score (evaluation e)) new)
          \<and> (\<forall>e \<in> set new.
                (score (evaluation e) = NaN \<or> in_bounds (score (evaluation e)))
                \<and> passed (evaluation e) = js_ge (score (evaluation e)) 70)
          \<and> map question_id new = map (\<lambda>p. q_id (fst p)) ps
          \<and> map user_answer new = map snd ps)"
  using assms
proof (induction ps arbitrary: calls evs tot)
  case Nil
  then show ?case by simp
next
  case (Cons p rest)
  obtain q a where p: "p = (q, a)" by (cases p)
  show ?case
  proof (cases "orc (length calls) (request_for (q, a))")
    case (Inl msg)
    with Cons.prems show ?thesis by (simp add: p evaluateAnswer_eq)
  next
    case (Inr ev)
    let ?calls = "calls @ [request_for (q, a)]"
    let ?e = "pushed_evaluation q a (returned_evaluation ev)"
    let ?tot = "js_add tot (score (returned_evaluation ev))"
    from Cons.prems Inr
    have "evaluate_loop orc ?calls rest (evs @ [?e]) ?tot = (calls', Inr (evs', tot'))"
      by (simp add: p evaluateAnswer_eq pushed_evaluation_def)
    from Cons.IH [OF this] obtain new where c: "calls' = ?calls @ map request_for rest"
      and n: "evs' = (evs @ [?e]) @ new" "length new = length rest"
        "tot' = foldl js_add ?tot (map (\<lambda>e. score (evaluation e)) new)"
        "\<forall>e \<in> set new.
                (score (evaluation e) = NaN \<or> in_bounds (score (evaluation e)))
                \<and> passed (evaluation e) = js_ge (score (evaluation e)) 70"
        "map question_id new = map (\<lambda>p. q_id (fst p)) rest"
        "map user_answer new = map snd rest"
      by blast
    have e: "(score (evaluation ?e) = NaN \<or> in_bounds (score (evaluation ?e)))
             \<and> passed (evaluation ?e) = js_ge (score (evaluation ?e)) 70"
      using clamp_NaN_or_in_bounds [of "score ev"]
      by (simp add: pushed_evaluation_def returned_evaluation_def)
    have "evs' = evs @ (?e # new) \<and> length (?e # new) = length (p # rest)
          \<and> tot' = foldl js_add tot (map (\<lambda>e. score (evaluation e)) (?e # new))
          \<and> (\<forall>e \<in> set (?e # new).
                (score (evaluation e) = NaN \<or> in_bounds (score (evaluation e)))
                \<and> passed (evaluation e) = js_ge (score (evaluation e)) 70)
          \<and> map question_id (?e # new) = map (\<lambda>p. q_id (fst p)) (p # rest)
          \<and> map user_answer (?e # new) = map snd (p # rest)"
      using n e by (simp add: p pushed_evaluation_def)
    then have "\<exists>new. evs' = evs @ new \<and> length new = length (p # rest)
          \<and> tot' = foldl js_add tot (map (\<lambda>e. score (evaluation e)) new)
          \<and> (\<forall>e \<in> set new.
                (score (evaluation e) = NaN \<or> in_bounds (score (evaluation e)))
                \<and> passed (evaluation e) = js_ge (score (evaluation e)) 70)
          \<and> map question_id new = map (\<lambda>p. q_id (fst p)) (p # rest)
          \<and> map user_answer new = map snd (p # rest)"
      by (rule exI)
    moreover have "calls' = calls @ map request_for (p # rest)"
      using c by (simp add: p)
    ultimately show ?thesis by (rule conjI [rotated])
  qed
qed

lemma evaluateAllAnswers_ok:
  assumes "evaluateAllAnswers orc calls questions userAnswers = (calls', Inr r)"
  shows "length questions = length userAnswers
     \<and> calls' = calls @ map request_for (zip questions userAnswers)
     \<and> length (scores_of r) = length questions
     \<and> (\<forall>s \<in> set (scores_of r). s = NaN \<or> in_bounds s)
     \<and> (\<forall>e \<in> set (individual_evaluations r).
           passed (evaluation e) = js_ge (score (evaluation e)) 70)
     \<and> map question_id (individual_evaluations r) = map q_id questions
     \<and> map user_answer (individual_evaluations r) = userAnswers
     \<and> is_verified r
         = js_ge (js_div (foldl js_add (Num 0) (scores_of r)) (length questions)) 70
     \<and> average_score r
         = Math_round (js_div (foldl js_add (Num 0) (scores_of r)) (length questions))
     \<and> total_score r = Math_round (foldl js_add (Num 0) (scores_of r))
     \<and> passing_threshold r = 70
     \<and> passed_questions (summary r)
         = length (filter (\<lambda>e. passed (evaluation e)) (individual_evaluations r))
     \<and> total_questions (summary r) = length questions
     \<and> status (summary r) = (if is_verified r then ''VERIFIED'' else ''NOT_VERIFIED'')"
proof -
  from assms have len: "length questions = length userAnswers"
    by (auto simp: evaluateAllAnswers_def split: if_splits)
  from assms len obtain evs tot where
    loop: "evaluate_loop orc calls (zip questions userAnswers) [] (Num 0)
             = (calls', Inr (evs, tot))"
    and r: "r = \<lparr>is_verified = js_ge (js_div tot (length questions)) 70,
                 average_score = Math_round (js_div tot (length questions)),
                 total_score = Math_round tot, passing_threshold = 70,
                 individual_evaluations = evs,
                 summary = \<lparr>passed_questions = length (filter (\<lambda>e. passed (evaluation e)) evs),
                            total_questions = length evs,
                            status = (if js_ge (js_div tot (length questions)) 70
                                      then ''VERIFIED'' else ''NOT_VERIFIED'')\<rparr>\<rparr>"
    by (auto simp: evaluateAllAnswers_def Let_def split: prod.splits sum.splits)
  from evaluate_loop_ok [OF loop] len show ?thesis
    by (auto simp: r scores_of_def comp_def map_fst_zip map_snd_zip
        simp flip: map_map [of q_id fst, unfolded comp_def])
qed

lemma evaluateAllAnswers_fail:
  assumes "length questions = length userAnswers" and "i < length questions"
    and "isl (orc (length calls + i) (request_for (questions ! i, userAnswers ! i)))"
  shows "\<exists>k\<le>i. \<exists>msg.
           orc (length calls + k) (request_for (questions ! k, userAnswers ! k)) = Inl msg
           \<and> evaluateAllAnswers orc calls questions userAnswers
               = (calls @ map request_for (take (Suc k) (zip questions userAnswers)),
                  Inl (Error (''Failed to evaluate answer: '' @ msg)))"
proof -
  let ?ps = "zip questions userAnswers"
  from assms have i: "i < length ?ps"
    and f0: "isl (orc (length calls + i) (request_for (?ps ! i)))" by simp_all
  from evaluate_loop_fail [of i ?ps orc calls "[]" "Num 0", OF i f0]
  obtain k msg where k: "k \<le> i"
    and f: "orc (length calls + k) (request_for (?ps ! k)) = Inl msg"
    and l: "evaluate_loop orc calls ?ps [] (Num 0)
              = (calls @ map request_for (take (Suc k) ?ps),
                 Inl (Error (''Failed to evaluate answer: '' @ msg)))"
    by blast
  from k assms have "?ps ! k = (questions ! k, userAnswers ! k)" by simp
  with f have "orc (length calls + k) (request_for (questions ! k, userAnswers ! k)) = Inl msg"
    by simp
  moreover from l assms(1) have "evaluateAllAnswers orc calls questions userAnswers
               = (calls @ map request_for (take (Suc k) ?ps),
                  Inl (Error (''Failed to evaluate answer: '' @ msg)))"
    by (simp add: evaluateAllAnswers_def)
  ultimately show ?thesis using k by blast
qed

lemma js_add_NaN_right: "js_add a NaN = NaN"
  by (cases a) simp_all

lemma foldl_js_add_from_NaN: "foldl js_add NaN xs = NaN"
  by (induction xs) simp_all

lemma foldl_js_add_NaN: "NaN \<in> set xs \<Longrightarrow> foldl js_add a xs = NaN"
  by (induction xs arbitrary: a) (auto simp: js_add_NaN_right foldl_js_add_from_NaN)

lemma scenario_C_returns:
  "snd (evaluateAllAnswers (oracle_of_scores [Num 80, Num 75, Num 60, Num 90, Num 70]) []
          five_questions five_answers)
     = Inr (projr (snd (evaluateAllAnswers
                          (oracle_of_scores [Num 80, Num 75, Num 60, Num 90, Num 70]) []
                          five_questions five_answers)))"
proof -
  have "\<not> isl (snd (evaluateAllAnswers
                      (oracle_of_scores [Num 80, Num 75, Num 60, Num 90, Num 70]) []
                      five_questions five_answers))"
    by code_simp
  then show ?thesis by simp
qed

lemma scenario_C_scores:
  "scores_of (projr (snd (evaluateAllAnswers
                            (oracle_of_scores [Num 80, Num 75, Num 60, Num 90, Num 70]) []
                            five_questions five_answers)))
     = map whole [80, 75, 60, 90, 70]"
  by code_simp

lemma missing_score_returns:
  "snd (evaluateAllAnswers (oracle_of_scores [Num 80, NaN]) []
          [example_question 1, example_question 2] [''a1'', ''a2''])
     = Inr (projr (snd (evaluateAllAnswers (oracle_of_scores [Num 80, NaN]) []
                          [example_question 1, example_question 2] [''a1'', ''a2''])))"
proof -
  have "\<not> isl (snd (evaluateAllAnswers (oracle_of_scores [Num 80, NaN]) []
                      [example_question 1, example_question 2] [''a1'', ''a2'']))"
    by code_simp
  then show ?thesis by simp
qed

lemma missing_score_scores:
  "scores_of (projr (snd (evaluateAllAnswers (oracle_of_scores [Num 80, NaN]) []
                            [example_question 1, example_question 2] [''a1'', ''a2''])))
     = [Num 80, NaN]"
  by code_simp

lemma fractional_scores_example:
  "total_score (projr (snd (evaluateAllAnswers (oracle_of_scores [Num (348 / 5), Num (703 / 10)]) []
                              [example_question 1, example_question 2] [''a1'', ''a2'']))) = Num 140
   \<and> average_score (projr (snd (evaluateAllAnswers
                                   (oracle_of_scores [Num (348 / 5), Num (703 / 10)]) []
                                   [example_question 1, example_question 2] [''a1'', ''a2''])))
       = Num 70
   \<and> \<not> is_verified (projr (snd (evaluateAllAnswers
                                   (oracle_of_scores [Num (348 / 5), Num (703 / 10)]) []
                                   [example_question 1, example_question 2] [''a1'', ''a2''])))"
  by code_simp

lemma missing_score_answer:
  "score (projr (snd (evaluateAnswer (oracle_of_scores [NaN]) [] ''q'' ''a'' ''c'' []))) = NaN
   \<and> \<not> passed (projr (snd (evaluateAnswer (oracle_of_scores [NaN]) [] ''q'' ''a'' ''c'' [])))"
  by (simp add: evaluateAnswer_def oracle_of_scores_def)

subsection \<open>Lower case\<close>

lemma toLowerCase_ascii_example:
  "toLowerCase plain_lower (units ''PyThOn 3'') = units ''python 3''"
  by code_simp

lemma toLowerCase_latin1_example:
  "toLowerCase plain_lower [201, 99, 111, 108, 101, 215, 223] = [233, 99, 111, 108, 101, 215, 223]"
  by code_simp

lemma toLowerCase_beyond_latin1: "toLowerCase ul [1046, 65] = ul [1046, 65]"
  by (simp add: toLowerCase_def)

subsection \<open>The catalog loader\<close>

lemma loaded_service_jobs:
  "map (\<lambda>j. (job_id j, required_skills j)) (getAllJobs loaded_service)
     = [(1, map units [''Python'', ''SQL'', ''Docker'']), (2, [])]"
  by code_simp

lemma loaded_service_index: "map_option job_id (getJobById loaded_service 1) = Some 1"
  by code_simp

lemma trim_example: "trim ([160, 9] @ units ''SQL'' @ [32, 8232, 65279]) = units ''SQL''"
  by code_simp

lemma loadJobsData_parser_error:
  "fs csvPath = Stream rows (ParserError msg) \<Longrightarrow>
     loadJobsData fs this csvPath
       = (foldl on_data (this\<lparr>jobs := [], jobIndex := Map.empty\<rparr>) rows,
          Some (Inl (Error (''Failed to load jobs CSV: '' @ msg))))"
  by (simp add: loadJobsData_def)

lemma loadJobsData_read_error:
  "fs csvPath = Stream rows (ReadError msg) \<Longrightarrow>
     loadJobsData fs this csvPath
       = (foldl on_data (this\<lparr>jobs := [], jobIndex := Map.empty\<rparr>) rows, None)"
  by (simp add: loadJobsData_def)

subsection \<open>The guards of the matcher\<close>

lemma empty_catalog_fails:
  "jobs this = [] \<Longrightarrow>
     retrieveMatchingJobs ul this cs ev topK
       = Inl (Error ''No jobs loaded. Call loadJobsData first.'')"
  by (simp add: retrieveMatchingJobs_def)

subsection \<open>The send loop\<close>

lemma sendApplicationEmail_eq:
  "sendApplicationEmail tr clock sent m
     = (sent @ [m],
        case tr (length sent) m of
          Inl msg \<Rightarrow> Inl (Error (''Failed to send email to '' @ mail_to m @ '': '' @ msg))
        | Inr mid \<Rightarrow>
            Inr \<lparr>sr_success = True, sr_messageId = mid, sr_to = mail_to m,
                 sr_timestamp = clock (length sent)\<rparr>)"
  by (simp add: sendApplicationEmail_def split: sum.splits)

lemma send_loop_eq:
  "send_loop tr clock sent ci pdf js results
     = (sent @ map (mail_for ci pdf) js,
        results @ attempt_records tr clock (length sent) ci pdf js)"
proof (induction js arbitrary: sent results)
  case Nil
  show ?case by simp
next
  case (Cons j rest)
  show ?case
    by (cases "tr (length sent) (mail_for ci pdf j)")
      (simp_all add: sendApplicationEmail_eq Cons.IH attempt_record_def mail_for_def)
qed

lemma length_attempt_records [simp]:
  "length (attempt_records tr clock n ci pdf js) = length js"
  by (induction js arbitrary: n) simp_all

lemma nth_attempt_records:
  "i < length js \<Longrightarrow>
     attempt_records tr clock n ci pdf js ! i = attempt_record tr clock (n + i) ci pdf (js ! i)"
proof (induction js arbitrary: n i)
  case Nil
  then show ?case by simp
next
  case (Cons j rest)
  then show ?case by (cases i) simp_all
qed

subsection \<open>The claims\<close>

text \<open>
  Claim C1, as amended. For every result \<open>r\<close> that \<open>evaluateAllAnswers\<close> returns there is
  one score per question, each of them \<open>NaN\<close> or a number from 0 to 100. \<open>is_verified\<close>
  is computed from the average before it is rounded: a verified result has at least one
  question and a reported \<open>average_score\<close> of at least 70; the converse is not claimed.
  A score that is \<open>NaN\<close> makes the result unverified, with \<open>average_score\<close> and
  \<open>total_score\<close> \<open>NaN\<close>. When all scores are whole numbers, \<open>total_score\<close> is their sum,
  \<open>is_verified\<close> holds exactly when the batch is not empty and the exact mean of the
  scores is at least 70, that is, when the sum is at least 70 times the number of scores,
  and \<open>average_score\<close> is the mean rounded half up (\<open>NaN\<close> for the empty batch). The
  threshold is 70.
\<close>

theorem C1_verified_iff_exact_mean:
  assumes "evaluateAllAnswers orc calls questions userAnswers = (calls', Inr r)"
  shows "length (scores_of r) = length questions
     \<and> (\<forall>s \<in> set (scores_of r). s = NaN \<or> in_bounds s)
     \<and> (is_verified r \<longrightarrow> questions \<noteq> [] \<and> js_ge (average_score r) 70)
     \<and> (NaN \<in> set (scores_of r) \<longrightarrow>
          \<not> is_verified r \<and> average_score r = NaN \<and> total_score r = NaN)
     \<and> (\<forall>ks. scores_of r = map whole ks \<longrightarrow>
          total_score r = whole (sum_list ks)
          \<and> is_verified r = (ks \<noteq> [] \<and> 70 \<le> spec_mean ks)
          \<and> is_verified r = (ks \<noteq> [] \<and> 70 * int (length ks) \<le> sum_list ks)
          \<and> average_score r
              = (if ks = [] then NaN else whole (round_half_up (spec_mean ks))))
     \<and> passing_threshold r = 70"
proof -
  note ok = evaluateAllAnswers_ok [OF assms]
  let ?n = "length questions"
  let ?T = "foldl js_add (Num 0) (scores_of r)"
  have len: "length (scores_of r) = ?n" using ok by blast
  have rng: "\<forall>s \<in> set (scores_of r). s = NaN \<or> in_bounds s" using ok by blast
  have ver: "is_verified r = js_ge (js_div ?T ?n) 70" using ok by blast
  have avg: "average_score r = Math_round (js_div ?T ?n)" using ok by blast
  have tot: "total_score r = Math_round ?T" using ok by blast
  have thr: "passing_threshold r = 70" using ok by blast
  have imp: "is_verified r \<longrightarrow> questions \<noteq> [] \<and> js_ge (average_score r) 70"
  proof
    assume v: "is_verified r"
    with ver have g: "js_ge (js_div ?T ?n) 70" by simp
    have "questions \<noteq> []"
    proof
      assume "questions = []"
      with len have "scores_of r = []" by simp
      with g \<open>questions = []\<close> show False by simp
    qed
    moreover from g have "js_ge (average_score r) 70"
      unfolding avg by (rule js_ge_Math_round_70)
    ultimately show "questions \<noteq> [] \<and> js_ge (average_score r) 70" by simp
  qed
  have nan: "NaN \<in> set (scores_of r) \<longrightarrow>
          \<not> is_verified r \<and> average_score r = NaN \<and> total_score r = NaN"
  proof
    assume "NaN \<in> set (scores_of r)"
    then have "?T = NaN" by (rule foldl_js_add_NaN)
    then show "\<not> is_verified r \<and> average_score r = NaN \<and> total_score r = NaN"
      by (simp add: ver avg tot)
  qed
  have whl: "\<forall>ks. scores_of r = map whole ks \<longrightarrow>
          total_score r = whole (sum_list ks)
          \<and> is_verified r = (ks \<noteq> [] \<and> 70 \<le> spec_mean ks)
          \<and> is_verified r = (ks \<noteq> [] \<and> 70 * int (length ks) \<le> sum_list ks)
          \<and> average_score r
              = (if ks = [] then NaN else whole (round_half_up (spec_mean ks)))"
  proof (intro allI impI)
    fix ks
    assume s: "scores_of r = map whole ks"
    with len have n: "length ks = ?n" by (metis length_map)
    have T: "?T = whole (sum_list ks)"
      using foldl_js_add_whole [of 0 ks] by (simp add: s whole_def)
    have z: "?n = 0 \<Longrightarrow> sum_list ks = 0" using n by simp
    have 1: "total_score r = whole (sum_list ks)"
      by (simp add: tot T Math_round_whole)
    have 3: "is_verified r = (ks \<noteq> [] \<and> 70 * int (length ks) \<le> sum_list ks)"
      using js_ge_div_whole_70 [of ?n "sum_list ks", OF z] n by (auto simp: ver T)
    have 2: "is_verified r = (ks \<noteq> [] \<and> 70 \<le> spec_mean ks)"
    proof (cases "ks = []")
      case True
      with 3 show ?thesis by simp
    next
      case False
      with n have "?n \<noteq> 0" by auto
      with False n show ?thesis by (simp add: ver T whole_def spec_mean_def)
    qed
    have 4: "average_score r
              = (if ks = [] then NaN else whole (round_half_up (spec_mean ks)))"
    proof (cases "ks = []")
      case True
      with n show ?thesis by (simp add: avg T whole_def)
    next
      case False
      with n have "?n \<noteq> 0" by auto
      with False n show ?thesis by (simp add: avg T whole_def spec_mean_def)
    qed
    from 1 2 3 4 show "total_score r = whole (sum_list ks)
          \<and> is_verified r = (ks \<noteq> [] \<and> 70 \<le> spec_mean ks)
          \<and> is_verified r = (ks \<noteq> [] \<and> 70 * int (length ks) \<le> sum_list ks)
          \<and> average_score r
              = (if ks = [] then NaN else whole (round_half_up (spec_mean ks)))"
      by blast
  qed
  from len rng imp nan whl thr show ?thesis by blast
qed

text \<open>
  Scenario C of the specification: the scores 80, 75, 60, 90, 70 have the sum 375 and the
  mean 75, and the candidate is verified. And a batch of two whose second reply has no
  numeric score: the candidate is not verified, and the average and the total are
  \<open>NaN\<close>.
\<close>

theorem C1_witness:
  "is_verified (projr (snd (evaluateAllAnswers
                              (oracle_of_scores [Num 80, Num 75, Num 60, Num 90, Num 70]) []
                              five_questions five_answers)))
   \<and> average_score (projr (snd (evaluateAllAnswers
                              (oracle_of_scores [Num 80, Num 75, Num 60, Num 90, Num 70]) []
                              five_questions five_answers))) = Num 75
   \<and> total_score (projr (snd (evaluateAllAnswers
                              (oracle_of_scores [Num 80, Num 75, Num 60, Num 90, Num 70]) []
                              five_questions five_answers))) = Num 375
   \<and> \<not> is_verified (projr (snd (evaluateAllAnswers (oracle_of_scores [Num 80, NaN]) []
                              [example_question 1, example_question 2] [''a1'', ''a2''])))
   \<and> average_score (projr (snd (evaluateAllAnswers (oracle_of_scores [Num 80, NaN]) []
                              [example_question 1, example_question 2] [''a1'', ''a2''])))
       = NaN
   \<and> total_score (projr (snd (evaluateAllAnswers (oracle_of_scores [Num 80, NaN]) []
                              [example_question 1, example_question 2] [''a1'', ''a2''])))
       = NaN"
proof -
  let ?x = "evaluateAllAnswers (oracle_of_scores [Num 80, Num 75, Num 60, Num 90, Num 70]) []
              five_questions five_answers"
  let ?y = "evaluateAllAnswers (oracle_of_scores [Num 80, NaN]) []
              [example_question 1, example_question 2] [''a1'', ''a2'']"
  have hx: "?x = (fst ?x, Inr (projr (snd ?x)))"
    using scenario_C_returns by (simp add: prod_eq_iff)
  have hy: "?y = (fst ?y, Inr (projr (snd ?y)))"
    using missing_score_returns by (simp add: prod_eq_iff)
  have m: "spec_mean [80, 75, 60, 90, 70] = 75" by (simp add: spec_mean_def)
  have rd: "round_half_up 75 = 75" using round_half_up_of_int [of 75] by simp
  from C1_verified_iff_exact_mean [OF hx]
  have "\<forall>ks. scores_of (projr (snd ?x)) = map whole ks \<longrightarrow>
          total_score (projr (snd ?x)) = whole (sum_list ks)
          \<and> is_verified (projr (snd ?x)) = (ks \<noteq> [] \<and> 70 \<le> spec_mean ks)
          \<and> is_verified (projr (snd ?x)) = (ks \<noteq> [] \<and> 70 * int (length ks) \<le> sum_list ks)
          \<and> average_score (projr (snd ?x))
              = (if ks = [] then NaN else whole (round_half_up (spec_mean ks)))"
    by blast
  from this [rule_format, OF scenario_C_scores]
  have a: "is_verified (projr (snd ?x)) \<and> average_score (projr (snd ?x)) = Num 75
           \<and> total_score (projr (snd ?x)) = Num 375"
    by (simp add: m rd whole_def)
  from C1_verified_iff_exact_mean [OF hy]
  have "NaN \<in> set (scores_of (projr (snd ?y))) \<longrightarrow>
          \<not> is_verified (projr (snd ?y)) \<and> average_score (projr (snd ?y)) = NaN
          \<and> total_score (projr (snd ?y)) = NaN"
    by blast
  moreover have "NaN \<in> set (scores_of (projr (snd ?y)))"
    unfolding missing_score_scores by simp
  ultimately have b: "\<not> is_verified (projr (snd ?y)) \<and> average_score (projr (snd ?y)) = NaN
          \<and> total_score (projr (snd ?y)) = NaN"
    by blast
  from a b show ?thesis by blast
qed

text \<open>
  Claim C1 as stated fails for the scores 69 and 70: the mean 69.5 is below 70, so the
  candidate is not verified, and it is reported as \<open>average_score = 70\<close>.
\<close>

theorem C1_counterexample:
  "average_score (projr (snd (evaluateAllAnswers (oracle_of_scores [Num 69, Num 70]) []
                                [example_question 1, example_question 2] [''a1'', ''a2''])))
     = Num 70
   \<and> \<not> is_verified (projr (snd (evaluateAllAnswers (oracle_of_scores [Num 69, Num 70]) []
                                [example_question 1, example_question 2] [''a1'', ''a2''])))
   \<and> \<not> isl (snd (evaluateAllAnswers (oracle_of_scores [Num 69, Num 70]) []
                                [example_question 1, example_question 2] [''a1'', ''a2'']))"
  by code_simp

text \<open>
  Claim C2, as amended. \<open>loadJobsData\<close> empties \<open>jobs\<close> and \<open>jobIndex\<close> before it looks at
  the source. When the file does not exist the call fails with
  \<open>Jobs CSV file not found\<close> and leaves the catalog empty: \<open>getAllJobs\<close> returns no job
  and \<open>getJobById\<close> finds none, whatever was loaded before.
\<close>

theorem C2_failed_load_clears_catalog:
  assumes "fs csvPath = NotFound"
  shows "loadJobsData fs this csvPath
        = (this\<lparr>jobs := [], jobIndex := Map.empty\<rparr>,
           Some (Inl (Error (''Jobs CSV file not found: '' @ csvPath))))
      \<and> getAllJobs (fst (loadJobsData fs this csvPath)) = []
      \<and> getJobById (fst (loadJobsData fs this csvPath)) jobId = None"
  using assms by (simp add: loadJobsData_def getAllJobs_def getJobById_def)

text \<open>
  A catalog of two jobs is loaded. A load of a missing file then fails and leaves no job
  behind.
\<close>

theorem C2_witness:
  "snd (loadJobsData example_fs loaded_service ''missing.csv'')
     = Some (Inl (Error ''Jobs CSV file not found: missing.csv''))
   \<and> getAllJobs (fst (loadJobsData example_fs loaded_service ''missing.csv'')) = []
   \<and> getJobById (fst (loadJobsData example_fs loaded_service ''missing.csv'')) 1 = None"
proof -
  have h: "example_fs ''missing.csv'' = NotFound" by (simp add: example_fs_def)
  from C2_failed_load_clears_catalog [of example_fs "''missing.csv''" loaded_service 1] h
  have e: "loadJobsData example_fs loaded_service ''missing.csv''
        = (loaded_service\<lparr>jobs := [], jobIndex := Map.empty\<rparr>,
           Some (Inl (Error (''Jobs CSV file not found: '' @ ''missing.csv''))))"
    and g: "getAllJobs (fst (loadJobsData example_fs loaded_service ''missing.csv'')) = []"
      "getJobById (fst (loadJobsData example_fs loaded_service ''missing.csv'')) 1 = None"
    by blast+
  from e have "snd (loadJobsData example_fs loaded_service ''missing.csv'')
     = Some (Inl (Error ''Jobs CSV file not found: missing.csv''))"
    by simp
  with g show ?thesis by blast
qed

text \<open>
  Claim C2 as stated fails on the same input: before the failed load the catalog holds
  jobs 1 and 2 and \<open>getJobById 1\<close> finds job 1; after it both are gone.
\<close>

theorem C2_counterexample:
  "map (\<lambda>j. (job_id j, required_skills j)) (getAllJobs loaded_service)
     = [(1, map units [''Python'', ''SQL'', ''Docker'']), (2, [])]
   \<and> map_option job_id (getJobById loaded_service 1) = Some 1
   \<and> snd (loadJobsData example_fs loaded_service ''missing.csv'')
     = Some (Inl (Error ''Jobs CSV file not found: missing.csv''))
   \<and> getAllJobs (fst (loadJobsData example_fs loaded_service ''missing.csv'')) = []
   \<and> getJobById (fst (loadJobsData example_fs loaded_service ''missing.csv'')) 1 = None"
  using loaded_service_jobs loaded_service_index
  by (simp add: loadJobsData_def example_fs_def getAllJobs_def getJobById_def)

text \<open>
  Claim C3, as amended. When the catalog holds at least one job and the verification
  result has \<open>is_verified = false\<close>, \<open>retrieveMatchingJobs\<close> returns the empty list of
  matched jobs with the reason \<open>verification_failed\<close> and a message, whatever the
  candidate's skills, the jobs and \<open>topK\<close> are: the result carries no match score, no
  count of matches and nothing else computed from the skills.
\<close>

theorem C3_unverified_gate:
  assumes "jobs this \<noteq> []" and "\<not> is_verified ev"
  shows "retrieveMatchingJobs unicode_lower this cs ev topK
           = Inr (Unverified [] ''Candidate not verified. No job applications sent.''
                    ''verification_failed'')"
  using assms by (simp add: retrieveMatchingJobs_def)

text \<open>
The gate on the example catalog.
\<close>

theorem C3_witness:
  "retrieveMatchingJobs plain_lower example_catalog [units ''Python''] unverified_result 2
     = Inr (Unverified [] ''Candidate not verified. No job applications sent.''
              ''verification_failed'')"
proof -
  have h1: "jobs example_catalog \<noteq> []" by (simp add: example_catalog_def)
  have h2: "\<not> is_verified unverified_result" by (simp add: unverified_result_def)
  show ?thesis by (rule C3_unverified_gate [OF h1 h2])
qed

text \<open>
  Claim C3 as stated also covers the catalog without jobs. There the check for an empty
  catalog comes first and the call fails, for an unverified candidate too.
\<close>

theorem C3_counterexample:
  "retrieveMatchingJobs plain_lower \<lparr>jobs = [], jobIndex = Map.empty\<rparr> [units ''Python'']
       unverified_result 5
     = Inl (Error ''No jobs loaded. Call loadJobsData first.'')"
  by (simp add: retrieveMatchingJobs_def)

text \<open>
  Claim C4. For a verified candidate and a catalog with at least one job,
  \<open>retrieveMatchingJobs\<close> returns \<open>slice(0, topK)\<close> of the ranked list, which for every
  count \<open>topK\<close> (an integer that is not negative) is its first \<open>topK\<close> entries and for every
  \<open>topK\<close> is a prefix of it; \<open>total_matches\<close> is the length of the whole ranked list. The
  ranked list is the one the specification describes (keep the jobs that score at least
  40, then sort stably by descending score); every entry scores at least 40; the scores
  descend; for each score, the jobs with that score stand in catalog order, and all of
  them are there when the score is at least 40; its length is the number of catalog jobs
  that score at least 40. The rounded scores of the returned jobs are at least 40 and
  descend as well. The result is a function of the catalog, the skills, the verification
  result and \<open>topK\<close>, and the catalog is only read: two calls with the same inputs return
  the same value.
\<close>

theorem C4_ranked_matches:
  assumes "jobs this \<noteq> []" and "is_verified ev"
  shows
    "retrieveMatchingJobs unicode_lower this cs ev topK
       = Inr (Matched
                (map to_matched_job
                   (slice_from_0 (filteredMatches unicode_lower cs (jobs this)) topK))
                (length (filteredMatches unicode_lower cs (jobs this)))
                (average_score ev) ''VERIFIED'')
     \<and> (0 \<le> topK \<longrightarrow>
          slice_from_0 (filteredMatches unicode_lower cs (jobs this)) topK
            = take (nat topK) (filteredMatches unicode_lower cs (jobs this)))
     \<and> prefix (slice_from_0 (filteredMatches unicode_lower cs (jobs this)) topK)
           (filteredMatches unicode_lower cs (jobs this))
     \<and> filteredMatches unicode_lower cs (jobs this) = spec_ranking unicode_lower cs (jobs this)
     \<and> (\<forall>m \<in> set (filteredMatches unicode_lower cs (jobs this)). 40 \<le> match_score m)
     \<and> sorted_wrt (\<lambda>a b. match_score b \<le> match_score a)
           (filteredMatches unicode_lower cs (jobs this))
     \<and> (\<forall>s. filter (\<lambda>m. match_score m = s) (filteredMatches unicode_lower cs (jobs this))
            = (if 40 \<le> s
               then filter (\<lambda>m. match_score m = s)
                      (map (to_match unicode_lower cs) (jobs this))
               else []))
     \<and> length (filteredMatches unicode_lower cs (jobs this))
         = length (filter (\<lambda>j. 40 \<le> calculateMatchScore unicode_lower cs j) (jobs this))
     \<and> (\<forall>r \<in> set (map to_matched_job
                       (slice_from_0 (filteredMatches unicode_lower cs (jobs this)) topK)).
            40 \<le> mj_match_score r)
     \<and> sorted_wrt (\<lambda>a b. mj_match_score b \<le> mj_match_score a)
           (map to_matched_job
              (slice_from_0 (filteredMatches unicode_lower cs (jobs this)) topK))"
proof -
  let ?ranked = "filteredMatches unicode_lower cs (jobs this)"
  obtain n where n: "slice_from_0 ?ranked topK = take n ?ranked"
    using slice_from_0_is_take by blast
  have res: "retrieveMatchingJobs unicode_lower this cs ev topK
       = Inr (Matched (map to_matched_job (slice_from_0 ?ranked topK))
                (length ?ranked) (average_score ev) ''VERIFIED'')"
    using assms by (simp add: retrieveMatchingJobs_def Let_def)
  have tk: "0 \<le> topK \<longrightarrow> slice_from_0 ?ranked topK = take (nat topK) ?ranked"
    by (simp add: slice_from_0_take)
  have pre: "prefix (slice_from_0 ?ranked topK) ?ranked"
    unfolding n by (rule take_is_prefix)
  have floor: "\<forall>m \<in> set ?ranked. 40 \<le> match_score m"
    by (simp add: filteredMatches_set)
  have srt: "sorted_wrt (\<lambda>a b. match_score b \<le> match_score a) ?ranked"
    by (rule filteredMatches_sorted)
  have out_floor:
    "\<forall>r \<in> set (map to_matched_job (slice_from_0 ?ranked topK)). 40 \<le> mj_match_score r"
    unfolding n using floor
    by (auto simp: to_matched_job_def dest!: in_set_takeD intro: round_half_up_ge_40)
  have "sorted_wrt (\<lambda>a b. match_score b \<le> match_score a) (take n ?ranked)"
    using srt by (rule sorted_wrt_take)
  then have "sorted_wrt (\<lambda>a b. round_half_up (match_score b) \<le> round_half_up (match_score a))
               (take n ?ranked)"
    by (rule sorted_wrt_mono_rel [rotated]) (rule round_half_up_mono)
  then have out_srt: "sorted_wrt (\<lambda>a b. mj_match_score b \<le> mj_match_score a)
           (map to_matched_job (slice_from_0 ?ranked topK))"
    unfolding n by (simp add: sorted_wrt_map to_matched_job_def)
  show ?thesis
    using res tk pre floor srt out_floor out_srt
    by (simp only: filteredMatches_stable filteredMatches_length
        filteredMatches_spec_ranking [symmetric] simp_thms)
qed

text \<open>
  On the example catalog, the candidate skill \<open>Python\<close> gives job 2 the score 100 and
  jobs 1 and 4 the score 50; with \<open>topK = 2\<close> the tie is cut after job 1.
\<close>

theorem C4_witness:
  "map (\<lambda>r. (mj_id r, mj_match_score r))
       (matched_jobs (projr (retrieveMatchingJobs plain_lower example_catalog [units ''Python'']
                               verified_result 2)))
     = [(2, 100), (1, 50)]
   \<and> total_matches (projr (retrieveMatchingJobs plain_lower example_catalog [units ''Python'']
                             verified_result 2)) = 3"
proof -
  have h1: "jobs example_catalog \<noteq> []" by (simp add: example_catalog_def)
  have h2: "is_verified verified_result" by (simp add: verified_result_def)
  have h3: "(0::int) \<le> 2" by simp
  note t = C4_ranked_matches [OF h1 h2, of plain_lower "[units ''Python'']" 2]
  from t have "retrieveMatchingJobs plain_lower example_catalog [units ''Python''] verified_result 2
       = Inr (Matched (map to_matched_job
                         (slice_from_0
                            (filteredMatches plain_lower [units ''Python'']
                               (jobs example_catalog)) 2))
                (length (filteredMatches plain_lower [units ''Python''] (jobs example_catalog)))
                (average_score verified_result) ''VERIFIED'')"
    by (rule conjunct1)
  moreover from t h3 have
    "slice_from_0 (filteredMatches plain_lower [units ''Python''] (jobs example_catalog)) 2
       = take (nat 2) (filteredMatches plain_lower [units ''Python''] (jobs example_catalog))"
    by blast
  moreover have "map (\<lambda>r. (mj_id r, mj_match_score r))
       (map to_matched_job
          (take (nat 2) (filteredMatches plain_lower [units ''Python''] (jobs example_catalog))))
     = [(2, 100), (1, 50)]"
    by code_simp
  moreover have
    "length (filteredMatches plain_lower [units ''Python''] (jobs example_catalog)) = 3"
    using arg_cong [OF example_ranked, of length] by simp
  ultimately show ?thesis by simp
qed



text \<open>
  Claim C6, as amended. Every evaluation that \<open>evaluateAnswer\<close> returns comes from a
  reply of the oracle, and its score is \<open>Math.max(0, Math.min(100, s))\<close> for the reply's
  score \<open>s\<close>. When \<open>s\<close> is a number, the returned score is \<open>s\<close> clamped to the range from
  0 to 100: it lies in the range, it is \<open>s\<close> itself when \<open>s\<close> was in the range, and it
  is 100 for plus infinity and 0 for minus infinity. \<open>passed\<close> says whether the returned
  score is at least 70, and the four subscores and the texts are the reply's, unchanged.
  The sum of the subscores is not compared with the score.
\<close>

theorem C6_score_clamped_not_summed:
  assumes "evaluateAnswer orc calls question userAnswer correctAnswer keywords = (calls', Inr r)"
  shows "\<exists>ev. orc (length calls)
               \<lparr>req_question = question, req_correctAnswer = correctAnswer,
                req_userAnswer = userAnswer, req_keywords = keywords\<rparr> = Inr ev
     \<and> score r = Math_max 0 (Math_min 100 (score ev))
     \<and> (score ev \<noteq> NaN \<longrightarrow> in_bounds (score r))
     \<and> (in_bounds (score ev) \<longrightarrow> score r = score ev)
     \<and> (\<forall>q. score ev = Num q \<longrightarrow> score r = Num (max 0 (min 100 q)))
     \<and> (score ev = PosInf \<longrightarrow> score r = Num 100)
     \<and> (score ev = NegInf \<longrightarrow> score r = Num 0)
     \<and> accuracy r = accuracy ev \<and> completeness r = completeness ev
     \<and> clarity r = clarity ev \<and> keyword_score r = keyword_score ev
     \<and> verdict r = verdict ev \<and> feedback r = feedback ev
     \<and> strengths r = strengths ev \<and> improvements r = improvements ev
     \<and> passed r = js_ge (score r) 70"
proof -
  let ?req = "\<lparr>req_question = question, req_correctAnswer = correctAnswer,
                req_userAnswer = userAnswer, req_keywords = keywords\<rparr>"
  from assms obtain ev where o: "orc (length calls) ?req = Inr ev"
    and r: "r = returned_evaluation ev"
    by (auto simp: evaluateAnswer_def returned_evaluation_def Let_def split: sum.splits)
  have s: "score r = Math_max 0 (Math_min 100 (score ev))"
    by (simp add: r returned_evaluation_def)
  have b: "score ev \<noteq> NaN \<longrightarrow> in_bounds (score r)"
    unfolding s by (simp add: clamp_in_bounds)
  have i: "in_bounds (score ev) \<longrightarrow> score r = score ev"
    unfolding s by (cases "score ev") simp_all
  have n: "\<forall>q. score ev = Num q \<longrightarrow> score r = Num (max 0 (min 100 q))"
    unfolding s by simp
  have p: "score ev = PosInf \<longrightarrow> score r = Num 100"
    unfolding s by simp
  have m: "score ev = NegInf \<longrightarrow> score r = Num 0"
    unfolding s by simp
  have rest: "accuracy r = accuracy ev \<and> completeness r = completeness ev
     \<and> clarity r = clarity ev \<and> keyword_score r = keyword_score ev
     \<and> verdict r = verdict ev \<and> feedback r = feedback ev
     \<and> strengths r = strengths ev \<and> improvements r = improvements ev
     \<and> passed r = js_ge (score r) 70"
    by (simp add: r returned_evaluation_def)
  from o s b i n p m rest show ?thesis by blast
qed

text \<open>
  A reply with the score 150 is returned with the score 100 and its subscores, a reply
  with the score -5 with the score 0, a reply with the score 72.5 as it is, and a reply
  with a score beyond the largest double with the score 100.
\<close>

theorem C6_witness:
  "score (projr (snd (evaluateAnswer (oracle_of_scores [Num 150]) [] ''q'' ''a'' ''c'' [])))
     = Num 100
   \<and> passed (projr (snd (evaluateAnswer (oracle_of_scores [Num 150]) [] ''q'' ''a'' ''c'' [])))
   \<and> accuracy (projr (snd (evaluateAnswer (oracle_of_scores [Num 150]) [] ''q'' ''a'' ''c'' [])))
     = Num 10
   \<and> score (projr (snd (evaluateAnswer (oracle_of_scores [Num (- 5)]) [] ''q'' ''a'' ''c'' [])))
     = Num 0
   \<and> score (projr (snd (evaluateAnswer (oracle_of_scores [Num (145 / 2)]) [] ''q'' ''a'' ''c'' [])))
     = Num (145 / 2)
   \<and> score (projr (snd (evaluateAnswer (oracle_of_scores [PosInf]) [] ''q'' ''a'' ''c'' [])))
     = Num 100
   \<and> score (projr (snd (evaluateAnswer (oracle_of_scores [NegInf]) [] ''q'' ''a'' ''c'' [])))
     = Num 0"
proof -
  have ret: "\<And>n. evaluateAnswer (oracle_of_scores [n]) [] ''q'' ''a'' ''c'' []
          = (fst (evaluateAnswer (oracle_of_scores [n]) [] ''q'' ''a'' ''c'' []),
             Inr (projr (snd (evaluateAnswer (oracle_of_scores [n]) [] ''q'' ''a'' ''c'' []))))"
    by (simp add: evaluateAnswer_def oracle_of_scores_def Let_def)
  from C6_score_clamped_not_summed [OF ret [of "Num 150"]]
  have "score (projr (snd (evaluateAnswer (oracle_of_scores [Num 150]) [] ''q'' ''a'' ''c'' [])))
     = Num 100
   \<and> passed (projr (snd (evaluateAnswer (oracle_of_scores [Num 150]) [] ''q'' ''a'' ''c'' [])))
   \<and> accuracy (projr (snd (evaluateAnswer (oracle_of_scores [Num 150]) [] ''q'' ''a'' ''c'' [])))
     = Num 10"
    by (auto simp: oracle_of_scores_def)
  moreover from C6_score_clamped_not_summed [OF ret [of "Num (- 5)"]]
  have "score (projr (snd (evaluateAnswer (oracle_of_scores [Num (- 5)]) [] ''q'' ''a'' ''c'' [])))
     = Num 0"
    by (auto simp: oracle_of_scores_def)
  moreover from C6_score_clamped_not_summed [OF ret [of "Num (145 / 2)"]]
  have "score (projr (snd (evaluateAnswer (oracle_of_scores [Num (145 / 2)]) [] ''q'' ''a'' ''c'' [])))
     = Num (145 / 2)"
    by (auto simp: oracle_of_scores_def)
  moreover from C6_score_clamped_not_summed [OF ret [of PosInf]]
  have "score (projr (snd (evaluateAnswer (oracle_of_scores [PosInf]) [] ''q'' ''a'' ''c'' [])))
     = Num 100"
    by (auto simp: oracle_of_scores_def)
  moreover from C6_score_clamped_not_summed [OF ret [of NegInf]]
  have "score (projr (snd (evaluateAnswer (oracle_of_scores [NegInf]) [] ''q'' ''a'' ''c'' [])))
     = Num 0"
    by (auto simp: oracle_of_scores_def)
  ultimately show ?thesis by blast
qed

text \<open>
  Claim C6 as stated fails for a reply with the score 90 and the subscores 10, 10, 10
  and 5: it is returned as it is, with the score 90 and subscores that add up to 35.
\<close>

theorem C6_counterexample:
  "score (projr (snd (evaluateAnswer (oracle_of_scores [Num 90]) [] ''q'' ''a'' ''c'' [])))
     = Num 90
   \<and> js_add
       (js_add
          (js_add
             (accuracy (projr (snd (evaluateAnswer (oracle_of_scores [Num 90]) []
                                      ''q'' ''a'' ''c'' []))))
             (completeness (projr (snd (evaluateAnswer (oracle_of_scores [Num 90]) []
                                          ''q'' ''a'' ''c'' [])))))
          (clarity (projr (snd (evaluateAnswer (oracle_of_scores [Num 90]) []
                                  ''q'' ''a'' ''c'' [])))))
       (keyword_score (projr (snd (evaluateAnswer (oracle_of_scores [Num 90]) []
                                     ''q'' ''a'' ''c'' []))))
     = Num 35
   \<and> \<not> isl (snd (evaluateAnswer (oracle_of_scores [Num 90]) [] ''q'' ''a'' ''c'' []))"
  by (simp add: evaluateAnswer_def oracle_of_scores_def)

text \<open>
  Claim C7. When the two arrays differ in length, \<open>evaluateAllAnswers\<close> fails with the
  mismatch error and the list of oracle calls is unchanged: no call was made; the route
  answers 400 and changes nothing. When the lengths agree and the oracle fails on the
  call for some question \<open>i\<close>, there is a first failing call \<open>k\<close>, at or before \<open>i\<close>: the
  calls for the questions up to \<open>k\<close> are made, none after it, and the batch fails with the
  error of call \<open>k\<close>; no result is returned. The route then answers 500 with that error
  and its cache is unchanged.
\<close>

theorem C7_fail_fast_and_abort:
  "(length questions \<noteq> length userAnswers \<longrightarrow>
      evaluateAllAnswers orc calls questions userAnswers
        = (calls, Inl (Error ''Number of questions must match number of answers''))
      \<and> post_evaluate orc key st
          \<lparr>body_questions = Some questions, body_answers = Some userAnswers,
           body_sessionId = sid\<rparr>
        = (st, Failure 400 ''Number of questions must match number of answers''))
   \<and> (length questions = length userAnswers \<and> i < length questions
        \<and> isl (orc (length calls + i) (request_for (questions ! i, userAnswers ! i))) \<longrightarrow>
      (\<exists>k\<le>i. \<exists>msg.
          orc (length calls + k) (request_for (questions ! k, userAnswers ! k)) = Inl msg
          \<and> evaluateAllAnswers orc calls questions userAnswers
              = (calls @ map request_for (take (Suc k) (zip questions userAnswers)),
                 Inl (Error (''Failed to evaluate answer: '' @ msg)))))
   \<and> (length questions = length userAnswers \<and> i < length questions
        \<and> isl (orc (length (oracle_calls st) + i)
                 (request_for (questions ! i, userAnswers ! i)))
        \<and> key \<noteq> None \<and> key \<noteq> Some [] \<longrightarrow>
      (\<exists>k\<le>i. \<exists>msg.
          orc (length (oracle_calls st) + k) (request_for (questions ! k, userAnswers ! k))
            = Inl msg
          \<and> post_evaluate orc key st
              \<lparr>body_questions = Some questions, body_answers = Some userAnswers,
               body_sessionId = sid\<rparr>
            = (st\<lparr>oracle_calls :=
                     oracle_calls st
                       @ map request_for (take (Suc k) (zip questions userAnswers))\<rparr>,
               Failure 500 (''Failed to evaluate answer: '' @ msg)))
      \<and> evaluationCache
            (fst (post_evaluate orc key st
                    \<lparr>body_questions = Some questions, body_answers = Some userAnswers,
                     body_sessionId = sid\<rparr>))
          = evaluationCache st)"
proof (intro conjI impI)
  assume "length questions \<noteq> length userAnswers"
  then show "evaluateAllAnswers orc calls questions userAnswers
        = (calls, Inl (Error ''Number of questions must match number of answers''))"
    by (simp add: evaluateAllAnswers_def)
next
  assume "length questions \<noteq> length userAnswers"
  then show "post_evaluate orc key st
          \<lparr>body_questions = Some questions, body_answers = Some userAnswers,
           body_sessionId = sid\<rparr>
        = (st, Failure 400 ''Number of questions must match number of answers'')"
    by (simp add: post_evaluate_def)
next
  assume "length questions = length userAnswers \<and> i < length questions
        \<and> isl (orc (length calls + i) (request_for (questions ! i, userAnswers ! i)))"
  then show "\<exists>k\<le>i. \<exists>msg.
          orc (length calls + k) (request_for (questions ! k, userAnswers ! k)) = Inl msg
          \<and> evaluateAllAnswers orc calls questions userAnswers
              = (calls @ map request_for (take (Suc k) (zip questions userAnswers)),
                 Inl (Error (''Failed to evaluate answer: '' @ msg)))"
    using evaluateAllAnswers_fail [of questions userAnswers i orc calls] by blast
next
  assume a: "length questions = length userAnswers \<and> i < length questions
        \<and> isl (orc (length (oracle_calls st) + i)
                 (request_for (questions ! i, userAnswers ! i)))
        \<and> key \<noteq> None \<and> key \<noteq> Some []"
  then obtain k msg where k: "k \<le> i"
    and f: "orc (length (oracle_calls st) + k) (request_for (questions ! k, userAnswers ! k))
              = Inl msg"
    and e: "evaluateAllAnswers orc (oracle_calls st) questions userAnswers
       = (oracle_calls st @ map request_for (take (Suc k) (zip questions userAnswers)),
          Inl (Error (''Failed to evaluate answer: '' @ msg)))"
    using evaluateAllAnswers_fail [of questions userAnswers i orc "oracle_calls st"] by blast
  from a e have p: "post_evaluate orc key st
            \<lparr>body_questions = Some questions, body_answers = Some userAnswers,
             body_sessionId = sid\<rparr>
          = (st\<lparr>oracle_calls :=
                   oracle_calls st @ map request_for (take (Suc k) (zip questions userAnswers))\<rparr>,
             Failure 500 (''Failed to evaluate answer: '' @ msg))"
    by (simp add: post_evaluate_def)
  with k f show "\<exists>k\<le>i. \<exists>msg.
          orc (length (oracle_calls st) + k) (request_for (questions ! k, userAnswers ! k))
            = Inl msg
          \<and> post_evaluate orc key st
              \<lparr>body_questions = Some questions, body_answers = Some userAnswers,
               body_sessionId = sid\<rparr>
            = (st\<lparr>oracle_calls :=
                     oracle_calls st
                       @ map request_for (take (Suc k) (zip questions userAnswers))\<rparr>,
               Failure 500 (''Failed to evaluate answer: '' @ msg))"
    by blast
  from p show "evaluationCache
            (fst (post_evaluate orc key st
                    \<lparr>body_questions = Some questions, body_answers = Some userAnswers,
                     body_sessionId = sid\<rparr>))
          = evaluationCache st"
    by simp
qed

text \<open>
  Three questions with one answer; and three questions with an oracle that fails on the
  third call.
\<close>

theorem C7_witness:
  "evaluateAllAnswers (oracle_of_scores [Num 80]) [] three_questions [''a1'']
     = ([], Inl (Error ''Number of questions must match number of answers''))
   \<and> snd (evaluateAllAnswers (oracle_of_scores [Num 80, Num 75]) [] three_questions three_answers)
     = Inl (Error ''Failed to evaluate answer: quota exceeded'')
   \<and> length (fst (evaluateAllAnswers (oracle_of_scores [Num 80, Num 75]) [] three_questions
                     three_answers)) = 3
   \<and> snd (post_evaluate (oracle_of_scores [Num 80, Num 75]) (Some ''key'') empty_route_state
            example_body)
     = Failure 500 ''Failed to evaluate answer: quota exceeded''
   \<and> get_evaluation
        (fst (post_evaluate (oracle_of_scores [Num 80, Num 75]) (Some ''key'') empty_route_state
                example_body)) ''session-1'' = None"
proof -
  have mism: "length three_questions \<noteq> length [''a1'']"
    by (simp add: three_questions_def)
  have len: "length three_questions = length three_answers" "2 < length three_questions"
    by (simp_all add: three_questions_def three_answers_def)
  have fails: "isl (oracle_of_scores [Num 80, Num 75] (length ([] :: oracle_request list) + 2)
                 (request_for (three_questions ! 2, three_answers ! 2)))"
    by (simp add: oracle_of_scores_def)
  have fails': "isl (oracle_of_scores [Num 80, Num 75] (length (oracle_calls empty_route_state) + 2)
                 (request_for (three_questions ! 2, three_answers ! 2)))"
    by (simp add: oracle_of_scores_def)
  have only: "\<And>k msg req. k \<le> 2 \<Longrightarrow> oracle_of_scores [Num 80, Num 75] k req = Inl msg
                \<Longrightarrow> k = 2 \<and> msg = ''quota exceeded''"
    by (auto simp: oracle_of_scores_def split: if_splits)
  note a = C7_fail_fast_and_abort
      [of three_questions "[''a1'']" "oracle_of_scores [Num 80]" "[]" None empty_route_state
          None 0]
  note b = C7_fail_fast_and_abort
      [of three_questions three_answers "oracle_of_scores [Num 80, Num 75]" "[]" "Some ''key''"
          empty_route_state "Some ''session-1''" 2]
  from a mism have 1: "evaluateAllAnswers (oracle_of_scores [Num 80]) [] three_questions [''a1'']
     = ([], Inl (Error ''Number of questions must match number of answers''))"
    by blast
  from b len fails obtain k msg where "k \<le> 2"
    and "oracle_of_scores [Num 80, Num 75] (length ([] :: oracle_request list) + k)
           (request_for (three_questions ! k, three_answers ! k)) = Inl msg"
    and e: "evaluateAllAnswers (oracle_of_scores [Num 80, Num 75]) [] three_questions three_answers
              = ([] @ map request_for (take (Suc k) (zip three_questions three_answers)),
                 Inl (Error (''Failed to evaluate answer: '' @ msg)))"
    by blast
  with only [where k = k and msg = msg] have "k = 2" "msg = ''quota exceeded''" by simp_all
  with e len have 2: "snd (evaluateAllAnswers (oracle_of_scores [Num 80, Num 75]) []
                            three_questions three_answers)
                  = Inl (Error ''Failed to evaluate answer: quota exceeded'')"
    and 3: "length (fst (evaluateAllAnswers (oracle_of_scores [Num 80, Num 75]) []
                     three_questions three_answers)) = 3"
    by simp_all
  from b len fails' obtain k' msg' where k2: "k' \<le> 2"
    and f2: "oracle_of_scores [Num 80, Num 75] (length (oracle_calls empty_route_state) + k')
           (request_for (three_questions ! k', three_answers ! k')) = Inl msg'"
    and p: "post_evaluate (oracle_of_scores [Num 80, Num 75]) (Some ''key'') empty_route_state
              example_body
          = (empty_route_state\<lparr>oracle_calls :=
                oracle_calls empty_route_state
                  @ map request_for (take (Suc k') (zip three_questions three_answers))\<rparr>,
             Failure 500 (''Failed to evaluate answer: '' @ msg'))"
    and c: "evaluationCache
              (fst (post_evaluate (oracle_of_scores [Num 80, Num 75]) (Some ''key'')
                      empty_route_state example_body))
            = evaluationCache empty_route_state"
    unfolding example_body_def by blast
  from only [where k = k' and msg = msg', OF k2] f2 have "msg' = ''quota exceeded''"
    by (simp add: empty_route_state_def)
  with p have "snd (post_evaluate (oracle_of_scores [Num 80, Num 75]) (Some ''key'')
                      empty_route_state example_body)
     = Failure 500 ''Failed to evaluate answer: quota exceeded''"
    by simp
  moreover from c have "get_evaluation
        (fst (post_evaluate (oracle_of_scores [Num 80, Num 75]) (Some ''key'') empty_route_state
                example_body)) ''session-1'' = None"
    by (simp add: get_evaluation_def empty_route_state_def)
  ultimately show ?thesis using 1 2 3 by simp
qed

text \<open>
  Claim C8. \<open>sendBatchApplications\<close> always returns normally. It hands one mail per job
  to the transport, in the order of the jobs, and returns one record per job in the same
  order. The record of job \<open>i\<close> carries the job's company, role and email; its status is
  \<open>sent\<close> or \<open>failed\<close>, and \<open>failed\<close> exactly when the transport failed on that mail, in
  which case the record holds the error text; the jobs after a failed one are still
  attempted.
\<close>

theorem C8_batch_isolates_failures:
  "\<exists>results.
     sendBatchApplications tr clock sent matchedJobs candidateInfo resumePDF
       = (sent @ map (mail_for candidateInfo resumePDF) matchedJobs, Inr results)
     \<and> results = attempt_records tr clock (length sent) candidateInfo resumePDF matchedJobs
     \<and> length results = length matchedJobs
     \<and> (\<forall>i < length matchedJobs.
           results ! i
             = attempt_record tr clock (length sent + i) candidateInfo resumePDF (matchedJobs ! i)
           \<and> company (results ! i) = mj_company_name (matchedJobs ! i)
           \<and> jobRole (results ! i) = mj_job_role (matchedJobs ! i)
           \<and> email (results ! i) = mj_company_email (matchedJobs ! i)
           \<and> (app_status (results ! i) = ''sent'' \<or> app_status (results ! i) = ''failed'')
           \<and> (app_status (results ! i) = ''failed'')
               = isl (tr (length sent + i) (mail_for candidateInfo resumePDF (matchedJobs ! i)))
           \<and> (\<forall>msg. tr (length sent + i) (mail_for candidateInfo resumePDF (matchedJobs ! i))
                        = Inl msg \<longrightarrow>
                 error_message (results ! i)
                   = Some (''Failed to send email to '' @ mj_company_email (matchedJobs ! i)
                            @ '': '' @ msg)))"
proof -
  let ?rs = "attempt_records tr clock (length sent) candidateInfo resumePDF matchedJobs"
  have "sendBatchApplications tr clock sent matchedJobs candidateInfo resumePDF
       = (sent @ map (mail_for candidateInfo resumePDF) matchedJobs, Inr ?rs)"
    by (simp add: sendBatchApplications_def send_loop_eq)
  moreover have "length ?rs = length matchedJobs" by simp
  moreover have "\<forall>i < length matchedJobs.
           ?rs ! i
             = attempt_record tr clock (length sent + i) candidateInfo resumePDF (matchedJobs ! i)
           \<and> company (?rs ! i) = mj_company_name (matchedJobs ! i)
           \<and> jobRole (?rs ! i) = mj_job_role (matchedJobs ! i)
           \<and> email (?rs ! i) = mj_company_email (matchedJobs ! i)
           \<and> (app_status (?rs ! i) = ''sent'' \<or> app_status (?rs ! i) = ''failed'')
           \<and> (app_status (?rs ! i) = ''failed'')
               = isl (tr (length sent + i) (mail_for candidateInfo resumePDF (matchedJobs ! i)))
           \<and> (\<forall>msg. tr (length sent + i) (mail_for candidateInfo resumePDF (matchedJobs ! i))
                        = Inl msg \<longrightarrow>
                 error_message (?rs ! i)
                   = Some (''Failed to send email to '' @ mj_company_email (matchedJobs ! i)
                            @ '': '' @ msg))"
    by (auto simp: nth_attempt_records attempt_record_def split: sum.splits)
  ultimately show ?thesis by blast
qed

text \<open>
  Scenario D of the specification: three jobs, the second send fails; three mails are
  handed over, the statuses are sent, failed, sent, and the second record holds the
  error.
\<close>

theorem C8_witness:
  "map app_status
     (projr (snd (sendBatchApplications flaky_transporter example_clock [] example_matched_jobs
                    example_candidate ''%PDF'')))
     = [''sent'', ''failed'', ''sent'']
   \<and> map error_message
     (projr (snd (sendBatchApplications flaky_transporter example_clock [] example_matched_jobs
                    example_candidate ''%PDF'')))
     = [None, Some ''Failed to send email to jobs@acme.example: invalid recipient'', None]
   \<and> map company
     (projr (snd (sendBatchApplications flaky_transporter example_clock [] example_matched_jobs
                    example_candidate ''%PDF'')))
     = map mj_company_name example_matched_jobs
   \<and> length (fst (sendBatchApplications flaky_transporter example_clock [] example_matched_jobs
                    example_candidate ''%PDF'')) = 3"
proof -
  from C8_batch_isolates_failures
         [of flaky_transporter example_clock "[]" example_matched_jobs example_candidate "''%PDF''"]
  obtain results where
    r: "sendBatchApplications flaky_transporter example_clock [] example_matched_jobs
          example_candidate ''%PDF''
        = ([] @ map (mail_for example_candidate ''%PDF'') example_matched_jobs, Inr results)"
    and a: "results = attempt_records flaky_transporter example_clock
                        (length ([] :: mail list)) example_candidate ''%PDF''
                        example_matched_jobs"
    by blast
  have "map app_status (attempt_records flaky_transporter example_clock
                        (length ([] :: mail list)) example_candidate ''%PDF''
                        example_matched_jobs) = [''sent'', ''failed'', ''sent'']"
    by code_simp
  moreover have "map error_message (attempt_records flaky_transporter example_clock
                        (length ([] :: mail list)) example_candidate ''%PDF''
                        example_matched_jobs)
        = [None, Some ''Failed to send email to jobs@acme.example: invalid recipient'', None]"
    by code_simp
  moreover have "map company (attempt_records flaky_transporter example_clock
                        (length ([] :: mail list)) example_candidate ''%PDF''
                        example_matched_jobs) = map mj_company_name example_matched_jobs"
    by code_simp
  moreover have "length example_matched_jobs = 3" by (simp add: example_matched_jobs_def)
  ultimately show ?thesis using r a by simp
qed

text \<open>
  Claim C9. When the candidate's skills contain the empty string, every job with at
  least one required skill scores 100 and all its required skills are matched; the ranked
  list is then the jobs with at least one required skill, in catalog order, and for a
  verified candidate \<open>total_matches\<close> counts exactly those jobs.
\<close>

theorem C9_empty_candidate_skill:
  assumes "[] \<in> set candidateSkills"
  shows
    "(required_skills j \<noteq> [] \<longrightarrow>
        calculateMatchScore unicode_lower candidateSkills j = 100
        \<and> findMatchedSkills unicode_lower candidateSkills j = required_skills j)
     \<and> filteredMatches unicode_lower candidateSkills js
         = map (to_match unicode_lower candidateSkills)
             (filter (\<lambda>j. required_skills j \<noteq> []) js)
     \<and> (jobs this \<noteq> [] \<and> is_verified ev \<longrightarrow>
          retrieveMatchingJobs unicode_lower this candidateSkills ev topK
            = Inr (Matched
                (map to_matched_job
                   (slice_from_0
                      (map (to_match unicode_lower candidateSkills)
                         (filter (\<lambda>j. required_skills j \<noteq> []) (jobs this))) topK))
                (length (filter (\<lambda>j. required_skills j \<noteq> []) (jobs this)))
                (average_score ev) ''VERIFIED''))"
  using assms
  by (simp add: empty_skill_score findMatchedSkills_spec empty_skill_satisfies
      empty_skill_filteredMatches retrieveMatchingJobs_def)

text \<open>
The example catalog has four jobs with required skills; all four match.
\<close>

theorem C9_witness:
  "calculateMatchScore plain_lower [units ''Cobol'', []]
       (job_with_skills 3 [''Java'', ''Go'', ''Rust'']) = 100
   \<and> findMatchedSkills plain_lower [units ''Cobol'', []]
       (job_with_skills 3 [''Java'', ''Go'', ''Rust''])
       = map units [''Java'', ''Go'', ''Rust'']
   \<and> map (\<lambda>m. job_id (job_of m))
       (filteredMatches plain_lower [units ''Cobol'', []] (jobs example_catalog))
       = [1, 2, 3, 4]
   \<and> total_matches (projr (retrieveMatchingJobs plain_lower example_catalog
                             [units ''Cobol'', []] verified_result 10))
       = 4"
proof -
  have h: "[] \<in> set [units ''Cobol'', []]" by simp
  have ne: "required_skills (job_with_skills 3 [''Java'', ''Go'', ''Rust'']) \<noteq> []"
    by (simp add: job_with_skills_def)
  have pre: "jobs example_catalog \<noteq> [] \<and> is_verified verified_result"
    by (simp add: example_catalog_def verified_result_def)
  note t = C9_empty_candidate_skill [OF h, of "job_with_skills 3 [''Java'', ''Go'', ''Rust'']"
      plain_lower "jobs example_catalog" example_catalog verified_result 10]
  have nonempty: "filter (\<lambda>j. required_skills j \<noteq> []) (jobs example_catalog)
      = [job_with_skills 1 [''Python'', ''SQL''], job_with_skills 2 [''python''],
         job_with_skills 3 [''Java'', ''Go'', ''Rust''], job_with_skills 4 [''SQL'', ''Python'']]"
    by (simp add: example_catalog_def job_with_skills_def)
  from t ne have "calculateMatchScore plain_lower [units ''Cobol'', []]
       (job_with_skills 3 [''Java'', ''Go'', ''Rust'']) = 100
   \<and> findMatchedSkills plain_lower [units ''Cobol'', []]
       (job_with_skills 3 [''Java'', ''Go'', ''Rust''])
       = map units [''Java'', ''Go'', ''Rust'']"
    by (simp add: job_with_skills_def)
  moreover from t have "map (\<lambda>m. job_id (job_of m))
       (filteredMatches plain_lower [units ''Cobol'', []] (jobs example_catalog))
       = [1, 2, 3, 4]"
    by (simp add: nonempty to_match_def job_with_skills_def)
  moreover from t pre have
    "total_matches (projr (retrieveMatchingJobs plain_lower example_catalog
                             [units ''Cobol'', []] verified_result 10)) = 4"
    by (simp add: nonempty)
  ultimately show ?thesis by simp
qed

text \<open>
  Claim C10. For two empty arrays \<open>evaluateAllAnswers\<close> passes the length check, makes
  no oracle call (the list of calls is unchanged) and returns a result: the average is
  0/0, which is \<open>NaN\<close>, the comparison with 70 is false, so \<open>is_verified\<close> is false and
  the status is \<open>NOT_VERIFIED\<close>, with zero passed questions.
\<close>

theorem C10_empty_batch:
  "evaluateAllAnswers orc calls [] []
     = (calls,
        Inr \<lparr>is_verified = False, average_score = NaN, total_score = Num 0,
             passing_threshold = 70, individual_evaluations = [],
             summary = \<lparr>passed_questions = 0, total_questions = 0,
                        status = ''NOT_VERIFIED''\<rparr>\<rparr>)"
  using round_half_up_of_int [of 0] by (simp add: evaluateAllAnswers_def)

text \<open>
The same with an oracle that would fail on any call.
\<close>

theorem C10_witness:
  "evaluateAllAnswers (oracle_of_scores []) [] [] []
     = ([],
        Inr \<lparr>is_verified = False, average_score = NaN, total_score = Num 0,
             passing_threshold = 70, individual_evaluations = [],
             summary = \<lparr>passed_questions = 0, total_questions = 0,
                        status = ''NOT_VERIFIED''\<rparr>\<rparr>)"
  by (rule C10_empty_batch)

end
